theory Spec2Isabelle
  imports Main
begin

section \<open>JavaScript values\<close>

text \<open>
  The driver is JavaScript, so every datum it touches is a dynamically typed value.
  Plain objects are association lists from property names to values (property order
  is insertion order, as \<^verbatim>\<open>Object.keys\<close> reports it). Numbers are the integer-valued
  ones (status codes); \<^verbatim>\<open>NaN\<close> and fractions are not represented. \<open>JResponse\<close> and
  \<open>JContext\<close> stand for the response object and the context object of the request
  being served: the source compares an action's result with them by identity.
  \<open>JBuffer\<close> is a Node buffer, a subclass of \<^verbatim>\<open>Uint8Array\<close>.
\<close>

datatype jsval =
    Undefined
  | Null
  | JBool bool
  | JNum int
  | JStr string
  | JObj "(string \<times> jsval) list"
  | JArr "jsval list"
  | JFunction string
  | JUint8Array "nat list"
  | JBuffer "nat list"
  | JResponse
  | JContext

type_synonym jsobj = "(string \<times> jsval) list"

text \<open>
  Errors are values. \<open>Constructed cls\<close> is the instance made by \<^verbatim>\<open>new cls(options)\<close> for
  a user-configured error class; \<open>Thrown v\<close> is any value raised by code outside this
  file (user middleware, authorization checkers, the action). \<open>AssertionError\<close> is what
  a failed \<^verbatim>\<open>assert\<close> of the host framework throws.
\<close>

datatype js_error =
    TypeError
  | AssertionError
  | Error string
  | AuthorizationCheckerNotDefinedError
  | AuthorizationRequiredError
  | AccessDeniedError
  | NotFoundError
  | Constructed jsval
  | Thrown jsval

text \<open>JavaScript truthiness, as used by \<^verbatim>\<open>if (x)\<close>, \<^verbatim>\<open>!x\<close>, \<^verbatim>\<open>x && y\<close>.\<close>

fun truthy :: "jsval \<Rightarrow> bool" where
  "truthy Undefined = False"
| "truthy Null = False"
| "truthy (JBool b) = b"
| "truthy (JNum n) = (n \<noteq> 0)"
| "truthy (JStr s) = (s \<noteq> [])"
| "truthy _ = True"

fun nullish :: "jsval \<Rightarrow> bool" where
  "nullish Undefined = True"
| "nullish Null = True"
| "nullish _ = False"

text \<open>\<^verbatim>\<open>typeof v === 'string'\<close>, \<^verbatim>\<open>v instanceof Object\<close>, \<^verbatim>\<open>v instanceof Function\<close>,
  \<^verbatim>\<open>v instanceof Uint8Array\<close>.\<close>

fun is_string :: "jsval \<Rightarrow> bool" where
  "is_string (JStr s) = True"
| "is_string _ = False"

fun instanceof_Object :: "jsval \<Rightarrow> bool" where
  "instanceof_Object (JObj kvs) = True"
| "instanceof_Object (JArr vs) = True"
| "instanceof_Object (JFunction f) = True"
| "instanceof_Object (JUint8Array bs) = True"
| "instanceof_Object (JBuffer bs) = True"
| "instanceof_Object JResponse = True"
| "instanceof_Object JContext = True"
| "instanceof_Object _ = False"

fun instanceof_Function :: "jsval \<Rightarrow> bool" where
  "instanceof_Function (JFunction f) = True"
| "instanceof_Function _ = False"

fun instanceof_Uint8Array :: "jsval \<Rightarrow> bool" where
  "instanceof_Uint8Array (JUint8Array bs) = True"
| "instanceof_Uint8Array (JBuffer bs) = True"
| "instanceof_Uint8Array _ = False"

text \<open>\<^verbatim>\<open>Buffer.from(v)\<close> on a typed array copies its bytes into a new buffer.\<close>

fun Buffer_from :: "jsval \<Rightarrow> jsval" where
  "Buffer_from (JUint8Array bs) = JBuffer bs"
| "Buffer_from (JBuffer bs) = JBuffer bs"
| "Buffer_from v = v"

text \<open>
  Property reads, \<^verbatim>\<open>v[k]\<close>. Reading a property of \<^verbatim>\<open>undefined\<close> or \<^verbatim>\<open>null\<close> throws a
  \<^verbatim>\<open>TypeError\<close>. On any other value the read first looks for an own property:
  \<open>own_property\<close> gives the own properties that a value of the model carries, which are
  the entries of a plain object, the elements and the \<^verbatim>\<open>length\<close> of an array, the
  characters and the \<^verbatim>\<open>length\<close> of a string, and the bytes of a typed array. An array
  index is the decimal numeral of a position, as \<open>index_key\<close> writes it. A name that is
  not an own property is read through the prototype chain of the value (for a
  function or a host object, also from what the object itself holds). What that gives
  depends on the prototypes of the JavaScript runtime, which are no part of the file:
  it is the parameter \<open>inherited\<close>, so that \<open>inherited v k\<close> is what the chain of \<open>v\<close> has
  for \<open>k\<close>, \<^verbatim>\<open>undefined\<close> if nothing (for a plain object made by a literal or
  by \<^verbatim>\<open>JSON.parse\<close> it is a function for \<^verbatim>\<open>constructor\<close> and \<^verbatim>\<open>toString\<close>, and
  \<^verbatim>\<open>undefined\<close> for \<^verbatim>\<open>required\<close>). \<open>lookup\<close> reads a key of an association list, for the
  reads of the source whose key is known to be an own key.
\<close>

type_synonym prototypes = "jsval \<Rightarrow> string \<Rightarrow> jsval"

definition lookup :: "jsobj \<Rightarrow> string \<Rightarrow> jsval" where
  "lookup kvs k = (case map_of kvs k of None \<Rightarrow> Undefined | Some v \<Rightarrow> v)"

definition digit :: "nat \<Rightarrow> char" where
  "digit n = ''0123456789'' ! n"

fun index_key :: "nat \<Rightarrow> string" where
  "index_key n = (if n < 10 then [digit n] else index_key (n div 10) @ [digit (n mod 10)])"

declare index_key.simps [simp del]

definition elements :: "jsval list \<Rightarrow> string \<Rightarrow> jsval option" where
  "elements vs k = map_of (zip (map index_key [0..<length vs]) vs) k"

fun own_property :: "jsval \<Rightarrow> string \<Rightarrow> jsval option" where
  "own_property (JObj kvs) k = map_of kvs k"
| "own_property (JArr vs) k =
     (if k = ''length'' then Some (JNum (int (length vs))) else elements vs k)"
| "own_property (JStr s) k =
     (if k = ''length'' then Some (JNum (int (length s)))
      else elements (map (\<lambda>ch. JStr [ch]) s) k)"
| "own_property (JUint8Array bs) k = elements (map (\<lambda>b. JNum (int b)) bs) k"
| "own_property (JBuffer bs) k = elements (map (\<lambda>b. JNum (int b)) bs) k"
| "own_property v k = None"

definition property :: "prototypes \<Rightarrow> jsval \<Rightarrow> string \<Rightarrow> jsval" where
  "property inherited v k =
     (case own_property v k of None \<Rightarrow> inherited v k | Some x \<Rightarrow> x)"

definition get_property :: "prototypes \<Rightarrow> jsval \<Rightarrow> string \<Rightarrow> js_error + jsval" where
  "get_property inherited v k =
     (if nullish v then Inl TypeError else Inr (property inherited v k))"

text \<open>
  A property key computed from \<^verbatim>\<open>param.name\<close>: a missing name is the value
  \<^verbatim>\<open>undefined\<close>, which JavaScript turns into the key \<^verbatim>\<open>"undefined"\<close>.
\<close>

definition property_key :: "string option \<Rightarrow> string" where
  "property_key n = (case n of None \<Rightarrow> ''undefined'' | Some s \<Rightarrow> s)"

text \<open>\<^verbatim>\<open>String.prototype.toLowerCase\<close> on the ASCII letters (header names are ASCII).\<close>

definition lower_char :: "char \<Rightarrow> char" where
  "lower_char ch =
     (case map_of (zip ''ABCDEFGHIJKLMNOPQRSTUVWXYZ'' ''abcdefghijklmnopqrstuvwxyz'') ch of
        None \<Rightarrow> ch
      | Some l \<Rightarrow> l)"

definition toLowerCase :: "string \<Rightarrow> string" where
  "toLowerCase s = map lower_char s"

section \<open>Parameter descriptors and the Session decorator\<close>

text \<open>
  A parameter descriptor as the decorators push it to the metadata storage. \<open>name\<close> and
  \<open>extraOptions\<close> are properties that other decorators set; a descriptor that lacks
  them reads them as \<^verbatim>\<open>undefined\<close>.
\<close>

record param =
  type :: string
  object :: jsval
  "method" :: string
  index :: nat
  parse :: jsval
  required :: jsval
  classTransform :: jsval
  validate :: jsval
  name :: "string option"
  extraOptions :: jsval

text \<open>
  \<^verbatim>\<open>Session(options)(object, methodName, index)\<close> pushes one descriptor to
  \<^verbatim>\<open>getMetadataArgsStorage().params\<close>; the storage list is passed in and returned.
  \<^verbatim>\<open>options && e\<close> is \<open>options\<close> itself when \<open>options\<close> is falsy, and a truthy value is
  neither \<^verbatim>\<open>undefined\<close> nor \<^verbatim>\<open>null\<close>, so the reads of its properties do not throw.
\<close>

definition Session ::
  "prototypes \<Rightarrow> jsval \<Rightarrow> jsval \<Rightarrow> string \<Rightarrow> nat \<Rightarrow> param list \<Rightarrow> param list" where
  "Session inherited options obj methodName idx params =
     params @
     [\<lparr> type = ''session'',
        object = obj,
        method = methodName,
        index = idx,
        parse = JBool False,
        required =
          (if truthy options \<and> property inherited options ''required'' \<noteq> Undefined
           then property inherited options ''required'' else JBool True),
        classTransform =
          (if truthy options then property inherited options ''transform'' else options),
        validate =
          (if truthy options \<and> property inherited options ''validate'' \<noteq> Undefined
           then property inherited options ''validate'' else JBool False),
        name = None,
        extraOptions = Undefined \<rparr>]"

section \<open>Request, response and context\<close>

text \<open>
  The Koa objects, reduced to the properties the driver reads and writes.
  \<open>routingControllersStarted\<close> is kept with its assignment history, latest first: the
  empty history is a property never assigned, which reads as \<^verbatim>\<open>undefined\<close>.
  Of the response, \<open>body\<close> and \<open>status\<close> are what its getters return,
  \<open>explicitStatus\<close> is the flag by which Koa remembers that a status was assigned,
  \<open>header_sets\<close> lists the calls \<^verbatim>\<open>response.set(name, value)\<close> that went through, in
  order, and \<open>redirects\<close> is at the disposal of the host's \<^verbatim>\<open>redirect\<close>.
  \<open>app_middleware\<close> is the middleware list of the application (\<^verbatim>\<open>ctx.app\<close>), to which
  \<^verbatim>\<open>koa.use\<close> appends; the driver only ever adds template renderers, recorded as
  template and render options.
\<close>

record request =
  routingControllersStarted :: "jsval list"
  body :: jsval
  headers :: jsval
  "file" :: jsval
  files :: jsval

record response =
  body :: jsval
  status :: jsval
  explicitStatus :: bool
  header_sets :: "(string \<times> jsval) list"
  redirects :: "jsval list"

record koa_context =
  request :: request
  response :: response
  params :: jsval
  session :: jsval
  state :: jsval
  query :: jsval
  headers :: jsval
  app_middleware :: "(jsval \<times> jsval) list"

definition started :: "'z koa_context_scheme \<Rightarrow> jsval" where
  "started context =
     (case routingControllersStarted (request context) of [] \<Rightarrow> Undefined | v # _ \<Rightarrow> v)"

section \<open>Parameter extraction\<close>

text \<open>
  \<^verbatim>\<open>getParamFromRequest(actionOptions, param)\<close>. Every caller builds
  \<^verbatim>\<open>actionOptions\<close> as \<^verbatim>\<open>{request: context.request, response: context.response, context, next}\<close>,
  so \<^verbatim>\<open>actionOptions.request\<close> is \<open>request context\<close>. The \<^verbatim>\<open>cookie\<close> module is not
  part of the file; its \<^verbatim>\<open>parse\<close> function is the parameter \<open>cookie_parse\<close>, which
  returns an object or throws. A \<^verbatim>\<open>switch\<close> with no matching case falls out of the
  function, which then returns \<^verbatim>\<open>undefined\<close>. In the \<^verbatim>\<open>header\<close> case
  \<^verbatim>\<open>param.name.toLowerCase()\<close> throws a \<^verbatim>\<open>TypeError\<close> when the descriptor has no name.
\<close>

definition getParamFromRequest ::
  "(jsval \<Rightarrow> js_error + jsval) \<Rightarrow> prototypes \<Rightarrow> 'z koa_context_scheme \<Rightarrow> param
     \<Rightarrow> js_error + jsval" where
  "getParamFromRequest cookie_parse inherited context param =
     (let req = request context in
      if param.type param = ''body'' then Inr (request.body req)
      else if param.type param = ''body-param'' then
        get_property inherited (request.body req) (property_key (name param))
      else if param.type param = ''param'' then
        get_property inherited (koa_context.params context) (property_key (name param))
      else if param.type param = ''params'' then Inr (koa_context.params context)
      else if param.type param = ''session'' then Inr (session context)
      else if param.type param = ''session-param'' then
        get_property inherited (session context) (property_key (name param))
      else if param.type param = ''state'' then
        (if name param \<noteq> None \<and> name param \<noteq> Some []
         then get_property inherited (state context) (property_key (name param))
         else Inr (state context))
      else if param.type param = ''query'' then
        get_property inherited (query context) (property_key (name param))
      else if param.type param = ''queries'' then Inr (query context)
      else if param.type param = ''file'' then Inr (file (request context))
      else if param.type param = ''files'' then Inr (files (request context))
      else if param.type param = ''header'' then
        (case name param of
           None \<Rightarrow> Inl TypeError
         | Some n \<Rightarrow> get_property inherited (koa_context.headers context) (toLowerCase n))
      else if param.type param = ''headers'' then Inr (request.headers req)
      else if param.type param = ''cookie'' then
        (case get_property inherited (koa_context.headers context) ''cookie'' of
           Inl e \<Rightarrow> Inl e
         | Inr h \<Rightarrow>
             if \<not> truthy h then Inr Undefined
             else (case cookie_parse h of
                     Inl e \<Rightarrow> Inl e
                   | Inr cookies \<Rightarrow>
                       get_property inherited cookies (property_key (name param))))
      else if param.type param = ''cookies'' then
        (case get_property inherited (request.headers req) ''cookie'' of
           Inl e \<Rightarrow> Inl e
         | Inr h \<Rightarrow>
             if \<not> truthy h then Inr (JObj [])
             else cookie_parse h)
      else Inr Undefined)"

section \<open>Middleware\<close>

text \<open>
  A Koa middleware is a function \<^verbatim>\<open>(context, next) => ...\<close> that may mutate the context,
  may call the continuation \<^verbatim>\<open>next\<close>, and returns a value or a promise. It is embedded
  in continuation-passing style over the mutable state, which is the context: the
  result is how the call ended, together with the context as it is then. \<open>Failed e\<close>
  covers both an exception \<open>e\<close> thrown by the call and a returned promise rejected with
  \<open>e\<close> (Koa's composition turns the former into the latter); the value a call
  returns or its promise resolves to is never read by the driver and is left out.
\<close>

datatype completion = Fulfilled | Failed js_error

type_synonym 'z result = "completion \<times> 'z koa_context_scheme"

type_synonym 'z continuation = "'z koa_context_scheme \<Rightarrow> 'z result"

type_synonym 'z middleware = "'z koa_context_scheme \<Rightarrow> 'z continuation \<Rightarrow> 'z result"

text \<open>
  The value of \<^verbatim>\<open>use.middleware\<close>. \<open>ClassMiddleware u\<close> is a class whose prototype has a
  \<^verbatim>\<open>use\<close> method, \<open>u\<close> being the \<^verbatim>\<open>use\<close> method of the instance that
  \<^verbatim>\<open>getFromContainer\<close> returns for it; \<open>FunctionMiddleware f\<close> is any other function,
  \<open>f\<close> being the function itself.
\<close>

datatype 'z middleware_value =
    ClassMiddleware "'z middleware"
  | FunctionMiddleware "'z middleware"

record 'z use =
  middleware :: "'z middleware_value"
  afterAction :: bool

text \<open>
  What a call of the authorization checker gives back: a value, an exception, or a
  promise-like (\<^verbatim>\<open>isPromiseLike\<close>) that resolves or rejects. The checker receives the
  action object, which holds the context, and may mutate it.
\<close>

datatype check_result = Returns jsval | Throws js_error | Resolves jsval | Rejects js_error

type_synonym 'z authorization_checker =
  "'z koa_context_scheme \<Rightarrow> jsval list \<Rightarrow> check_result \<times> 'z koa_context_scheme"

text \<open>
  \<^verbatim>\<open>actionMetadata.authorizedRoles\<close>: an array of roles, or a function (a checker class).
  For a function, the number is its \<^verbatim>\<open>length\<close> property (the declared parameter count
  of the constructor) and the function is \<^verbatim>\<open>getFromContainer(authorizedRoles, action).check\<close>.
\<close>

datatype 'z roles =
    Roles "jsval list"
  | RolesClass nat "'z koa_context_scheme \<Rightarrow> check_result \<times> 'z koa_context_scheme"

fun roles_length :: "'z roles \<Rightarrow> nat" where
  "roles_length (Roles rs) = length rs"
| "roles_length (RolesClass n check) = n"

datatype route = RouteString string | RouteRegExp string

text \<open>The action metadata, reduced to the properties the driver reads.
  \<open>controller_uses\<close> is \<^verbatim>\<open>actionMetadata.controllerMetadata.uses\<close>.\<close>

record 'z action =
  type :: string
  fullRoute :: route
  isAuthorizedUsed :: bool
  authorizedRoles :: "'z roles"
  isFileUsed :: bool
  isFilesUsed :: bool
  params :: "param list"
  controller_uses :: "'z use list"
  uses :: "'z use list"
  redirect :: jsval
  renderedTemplate :: jsval
  undefinedResultCode :: jsval
  nullResultCode :: jsval
  successHttpCode :: jsval
  headers :: jsobj
  isJsonTyped :: bool

datatype upload = Single | Array

text \<open>
  The driver: the members that \<^verbatim>\<open>KoaDriver\<close> inherits from \<^verbatim>\<open>BaseDriver\<close>
  (\<open>isDefaultErrorHandlingEnabled\<close>, \<open>authorizationChecker\<close>, \<open>routePrefix\<close>,
  \<open>processJsonError\<close>, \<open>processTextError\<close>, \<open>transformResult\<close>), and what the file
  imports from modules that are not part of it: \<open>instanceof_HttpError\<close> is
  \<^verbatim>\<open>error instanceof HttpError\<close>, \<open>httpCode\<close> reads \<^verbatim>\<open>error.httpCode\<close>, \<open>templateUrl\<close> is
  the \<^verbatim>\<open>template-url\<close> function, \<open>appendBaseRoute\<close> is \<^verbatim>\<open>ActionMetadata.appendBaseRoute\<close>,
  \<open>multer\<close> is the \<^verbatim>\<open>@koa/multer\<close> module when it is installed, giving
  \<^verbatim>\<open>multer(extraOptions).single(name)\<close> and \<^verbatim>\<open>multer(extraOptions).array(name)\<close>.
  Two members stand for the host's response object: \<open>header_accepted name value\<close> says
  whether \<^verbatim>\<open>response.set(name, value)\<close> goes through (Node refuses a header name or value
  with characters it does not allow, by a \<^verbatim>\<open>TypeError\<close>), and \<open>koa_redirect\<close> is
  \<^verbatim>\<open>response.redirect(url)\<close>, which sets a header, a status and a body of its own
  making, or throws.
\<close>

record 'z driver =
  isDefaultErrorHandlingEnabled :: bool
  authorizationChecker :: "'z authorization_checker option"
  routePrefix :: string
  processJsonError :: "js_error \<Rightarrow> jsval"
  processTextError :: "js_error \<Rightarrow> jsval"
  transformResult :: "jsval \<Rightarrow> 'z action \<Rightarrow> 'z koa_context_scheme \<Rightarrow> jsval"
  instanceof_HttpError :: "js_error \<Rightarrow> bool"
  httpCode :: "js_error \<Rightarrow> jsval"
  templateUrl :: "jsval \<Rightarrow> jsval \<Rightarrow> jsval"
  appendBaseRoute :: "string \<Rightarrow> route \<Rightarrow> route"
  multer :: "(jsval \<Rightarrow> upload \<Rightarrow> string option \<Rightarrow> 'z middleware) option"
  header_accepted :: "string \<Rightarrow> jsval \<Rightarrow> bool"
  koa_redirect :: "jsval \<Rightarrow> response \<Rightarrow> js_error + response"

section \<open>Writing the response\<close>

text \<open>
  The driver writes the response through the setters of Koa's response object.
  Assigning \<^verbatim>\<open>response.status\<close> asserts that the code is an integer from 100 to 999
  and throws otherwise; it then stores the code, marks the status as explicit, and
  clears a truthy body when the code is 204, 205 or 304. Assigning \<^verbatim>\<open>response.body\<close>
  stores the value and does not throw; for \<^verbatim>\<open>undefined\<close> or \<^verbatim>\<open>null\<close> it assigns the
  status 204 unless the status is 204, 205 or 304 already, for any other value it
  assigns the status 200 unless a status was assigned before. Both go through the
  status setter, which marks the status as explicit. The headers that the body setter
  adjusts (content type and length) are not part of the model, and the response is
  taken not to have sent its headers yet.
\<close>

definition empty_status :: "jsval \<Rightarrow> bool" where
  "empty_status code \<longleftrightarrow> code = JNum 204 \<or> code = JNum 205 \<or> code = JNum 304"

fun valid_status :: "jsval \<Rightarrow> bool" where
  "valid_status (JNum n) = (100 \<le> n \<and> n \<le> 999)"
| "valid_status v = False"

definition status_setter :: "jsval \<Rightarrow> response \<Rightarrow> js_error + response" where
  "status_setter code r =
     (if \<not> valid_status code then Inl AssertionError
      else
        let r1 = r\<lparr>status := code, explicitStatus := True\<rparr>
        in if truthy (response.body r1) \<and> empty_status code
           then Inr (r1\<lparr>response.body := Null\<rparr>) else Inr r1)"

definition body_setter :: "jsval \<Rightarrow> response \<Rightarrow> response" where
  "body_setter v r =
     (let r1 = r\<lparr>response.body := v\<rparr>
      in if nullish v then
           (if \<not> empty_status (status r1)
            then r1\<lparr>status := JNum 204, explicitStatus := True\<rparr> else r1)
         else
           (if \<not> explicitStatus r1
            then r1\<lparr>status := JNum 200, explicitStatus := True\<rparr> else r1))"

text \<open>The assignments and calls of the driver, on the response of a context.\<close>

definition set_body :: "jsval \<Rightarrow> 'z koa_context_scheme \<Rightarrow> 'z koa_context_scheme" where
  "set_body v context = context\<lparr>response := body_setter v (response context)\<rparr>"

definition set_status ::
  "jsval \<Rightarrow> 'z koa_context_scheme \<Rightarrow> js_error + 'z koa_context_scheme" where
  "set_status v context =
     (case status_setter v (response context) of
        Inl e \<Rightarrow> Inl e
      | Inr r \<Rightarrow> Inr (context\<lparr>response := r\<rparr>))"

definition response_set ::
  "'z driver \<Rightarrow> string \<Rightarrow> jsval \<Rightarrow> 'z koa_context_scheme
     \<Rightarrow> js_error + 'z koa_context_scheme" where
  "response_set this k v context =
     (if header_accepted this k v then
        Inr (context\<lparr>response := (response context)
               \<lparr>header_sets := header_sets (response context) @ [(k, v)]\<rparr>\<rparr>)
      else Inl TypeError)"

definition response_redirect ::
  "'z driver \<Rightarrow> jsval \<Rightarrow> 'z koa_context_scheme \<Rightarrow> js_error + 'z koa_context_scheme" where
  "response_redirect this url context =
     (case koa_redirect this url (response context) of
        Inl e \<Rightarrow> Inl e
      | Inr r \<Rightarrow> Inr (context\<lparr>response := r\<rparr>))"

definition koa_use_render ::
  "jsval \<Rightarrow> jsval \<Rightarrow> 'z koa_context_scheme \<Rightarrow> 'z koa_context_scheme" where
  "koa_use_render template renderOptions context =
     context\<lparr>app_middleware := app_middleware context @ [(template, renderOptions)]\<rparr>"

definition Object_keys :: "jsobj \<Rightarrow> string list" where
  "Object_keys kvs = map fst kvs"

text \<open>
  \<^verbatim>\<open>Object.keys(action.headers).forEach(name => options.response.set(name, action.headers[name]))\<close>:
  the loop ends at the first call that throws, with the headers set so far.
\<close>

fun setHeaders ::
  "'z driver \<Rightarrow> jsobj \<Rightarrow> string list \<Rightarrow> 'z koa_context_scheme \<Rightarrow> 'z result" where
  "setHeaders this hs [] context = (Fulfilled, context)"
| "setHeaders this hs (k # ks) context =
     (case response_set this k (lookup hs k) context of
        Inl e \<Rightarrow> (Failed e, context)
      | Inr c \<Rightarrow> setHeaders this hs ks c)"

definition applyHeaders :: "'z driver \<Rightarrow> 'z action \<Rightarrow> 'z koa_context_scheme \<Rightarrow> 'z result" where
  "applyHeaders this action context =
     setHeaders this (action.headers action) (Object_keys (action.headers action)) context"

section \<open>The error path\<close>

text \<open>
  \<^verbatim>\<open>handleError(error, action, options)\<close> returns a promise: \<open>Fulfilled\<close> is
  \<^verbatim>\<open>resolve()\<close>, \<open>Failed error\<close> is \<^verbatim>\<open>reject(error)\<close>. An exception thrown inside the
  executor of \<^verbatim>\<open>new Promise\<close> rejects the promise with that exception. \<open>action\<close> is
  absent when the caller passes \<^verbatim>\<open>undefined\<close>.
\<close>

definition handleError ::
  "'z driver \<Rightarrow> js_error \<Rightarrow> 'z action option \<Rightarrow> 'z koa_context_scheme \<Rightarrow> 'z result" where
  "handleError this error action context =
     (if isDefaultErrorHandlingEnabled this then
        (case (case action of
                 None \<Rightarrow> (Fulfilled, context)
               | Some a \<Rightarrow> applyHeaders this a context) of
           (Failed e, c1) \<Rightarrow> (Failed e, c1)
         | (Fulfilled, c1) \<Rightarrow>
             let c2 = (if (case action of None \<Rightarrow> False | Some a \<Rightarrow> isJsonTyped a)
                       then set_body (processJsonError this error) c1
                       else set_body (processTextError this error) c1)
             in case (if instanceof_HttpError this error \<and> truthy (httpCode this error)
                      then set_status (httpCode this error) c2
                      else set_status (JNum 500) c2) of
                  Inl e \<Rightarrow> (Failed e, c2)
                | Inr c3 \<Rightarrow> (Fulfilled, c3))
      else (Failed error, context))"

section \<open>The success path\<close>

text \<open>
  \<^verbatim>\<open>handleSuccess(result, action, options)\<close>, in the three steps of the source after the
  short-circuit and the transformation: the branch on redirect, template and result,
  the status code, the headers; then \<^verbatim>\<open>options.next()\<close>. An exception of a step ends
  the call there.
\<close>

definition redirected ::
  "'z driver \<Rightarrow> jsval \<Rightarrow> 'z koa_context_scheme \<Rightarrow> 'z result" where
  "redirected this url context =
     (case response_redirect this url context of
        Inl e \<Rightarrow> (Failed e, context)
      | Inr c \<Rightarrow> (Fulfilled, c))"

definition writeResult ::
  "'z driver \<Rightarrow> jsval \<Rightarrow> 'z action \<Rightarrow> 'z koa_context_scheme \<Rightarrow> 'z result" where
  "writeResult this result action context =
     (if truthy (redirect action) then
        (if is_string result then redirected this result context
         else if instanceof_Object result then
           redirected this (templateUrl this (redirect action) result) context
         else redirected this (redirect action) context)
      else if truthy (renderedTemplate action) then
        (let renderOptions = (if truthy result \<and> instanceof_Object result then result else JObj [])
         in (Fulfilled, koa_use_render (renderedTemplate action) renderOptions context))
      else if result = Undefined then
        (if instanceof_Function (undefinedResultCode action)
         then (Failed (Constructed (undefinedResultCode action)), context)
         else if \<not> truthy (undefinedResultCode action) then (Failed NotFoundError, context)
         else (Fulfilled, context))
      else if result = Null then
        (if instanceof_Function (nullResultCode action)
         then (Failed (Constructed (nullResultCode action)), context)
         else (Fulfilled, set_body Null context))
      else if instanceof_Uint8Array result then (Fulfilled, set_body (Buffer_from result) context)
      else (Fulfilled, set_body result context))"

definition setHttpStatusCode ::
  "jsval \<Rightarrow> 'z action \<Rightarrow> 'z koa_context_scheme \<Rightarrow> js_error + 'z koa_context_scheme" where
  "setHttpStatusCode result action context =
     (if result = Undefined \<and> truthy (undefinedResultCode action)
      then set_status (undefinedResultCode action) context
      else if result = Null \<and> truthy (nullResultCode action)
      then set_status (nullResultCode action) context
      else if truthy (successHttpCode action)
      then set_status (successHttpCode action) context
      else if response.body (response context) = Null
      then set_status (JNum 204) context
      else Inr context)"

definition handleSuccess ::
  "'z driver \<Rightarrow> jsval \<Rightarrow> 'z action \<Rightarrow> 'z middleware" where
  "handleSuccess this result action context next =
     (if truthy result \<and> (result = JResponse \<or> result = JContext) then next context
      else
        let result' = transformResult this result action context
        in case writeResult this result' action context of
             (Failed e, c1) \<Rightarrow> (Failed e, c1)
           | (Fulfilled, c1) \<Rightarrow>
               (case setHttpStatusCode result' action c1 of
                  Inl e \<Rightarrow> (Failed e, c1)
                | Inr c2 \<Rightarrow>
                    (case applyHeaders this action c2 of
                       (Failed e, c3) \<Rightarrow> (Failed e, c3)
                     | (Fulfilled, c3) \<Rightarrow> next c3)))"

section \<open>Building the middleware chain of an action\<close>

text \<open>
  \<^verbatim>\<open>prepareMiddlewares(uses)\<close>: the \<^verbatim>\<open>forEach\<close> that pushes one function per use.
  The wrapper of a class middleware awaits the \<^verbatim>\<open>use\<close> call inside \<^verbatim>\<open>try\<close>; the
  \<^verbatim>\<open>catch\<close> hands the error to \<^verbatim>\<open>handleError\<close> with no action.
\<close>

definition classMiddlewareWrapper :: "'z driver \<Rightarrow> 'z middleware \<Rightarrow> 'z middleware" where
  "classMiddlewareWrapper this u context next =
     (case u context next of
        (Fulfilled, c1) \<Rightarrow> (Fulfilled, c1)
      | (Failed error, c1) \<Rightarrow> handleError this error None c1)"

definition prepareMiddlewares :: "'z driver \<Rightarrow> 'z use list \<Rightarrow> 'z middleware list" where
  "prepareMiddlewares this us =
     foldl (\<lambda>middlewareFunctions u.
              case middleware u of
                ClassMiddleware cls \<Rightarrow> middlewareFunctions @ [classMiddlewareWrapper this cls]
              | FunctionMiddleware f \<Rightarrow> middlewareFunctions @ [f])
       [] us"

text \<open>
  The authorization middleware of \<^verbatim>\<open>registerAction\<close>. \<open>checkResultHandler\<close> is its
  local function \<^verbatim>\<open>handleError\<close>. In the promise branch the \<^verbatim>\<open>catch\<close> also receives
  what the \<^verbatim>\<open>then\<close> callback rejects with; in the other branch \<^verbatim>\<open>next()\<close> and
  \<^verbatim>\<open>this.handleError\<close> return promises, which the \<^verbatim>\<open>try\<close> does not catch.
\<close>

definition checkResultHandler ::
  "'z driver \<Rightarrow> 'z action \<Rightarrow> jsval \<Rightarrow> 'z middleware" where
  "checkResultHandler this actionMetadata result context next =
     (if \<not> truthy result then
        handleError this
          (if roles_length (authorizedRoles actionMetadata) = 0
           then AuthorizationRequiredError else AccessDeniedError)
          (Some actionMetadata) context
      else next context)"

definition authorizationMiddleware :: "'z driver \<Rightarrow> 'z action \<Rightarrow> 'z middleware" where
  "authorizationMiddleware this actionMetadata context next =
     (case authorizationChecker this of
        None \<Rightarrow> (Failed AuthorizationCheckerNotDefinedError, context)
      | Some checker \<Rightarrow>
          (case (case authorizedRoles actionMetadata of
                   RolesClass n check \<Rightarrow> check context
                 | Roles rs \<Rightarrow> checker context rs) of
             (Resolves result, c1) \<Rightarrow>
               (case checkResultHandler this actionMetadata result c1 next of
                  (Failed error, c2) \<Rightarrow> handleError this error (Some actionMetadata) c2
                | (Fulfilled, c2) \<Rightarrow> (Fulfilled, c2))
           | (Rejects error, c1) \<Rightarrow> handleError this error (Some actionMetadata) c1
           | (Returns result, c1) \<Rightarrow> checkResultHandler this actionMetadata result c1 next
           | (Throws error, c1) \<Rightarrow> handleError this error (Some actionMetadata) c1))"

text \<open>The route guard of \<^verbatim>\<open>registerAction\<close>.\<close>

definition routeGuard :: "'z middleware" where
  "routeGuard context next =
     (if \<not> truthy (started context) then
        next (context\<lparr>request := (request context)
                \<lparr>routingControllersStarted :=
                   JBool True # routingControllersStarted (request context)\<rparr>\<rparr>)
      else (Fulfilled, context))"

text \<open>
  \<^verbatim>\<open>defaultMiddlewares\<close>: the authorization middleware, then one upload middleware per
  file parameter and one per files parameter. \<^verbatim>\<open>loadMulter\<close> throws when the module
  is not installed.
\<close>

definition defaultMiddlewares ::
  "'z driver \<Rightarrow> 'z action \<Rightarrow> js_error + 'z middleware list" where
  "defaultMiddlewares this actionMetadata =
     (let auth = (if isAuthorizedUsed actionMetadata
                  then [authorizationMiddleware this actionMetadata] else [])
      in if isFileUsed actionMetadata \<or> isFilesUsed actionMetadata then
           (case multer this of
              None \<Rightarrow>
                Inl (Error ''@koa/multer package was not found installed. Try to install it: npm install @koa/multer --save'')
            | Some m \<Rightarrow>
                Inr (auth
                  @ map (\<lambda>p. m (extraOptions p) Single (name p))
                      (filter (\<lambda>p. param.type p = ''file'') (action.params actionMetadata))
                  @ map (\<lambda>p. m (extraOptions p) Array (name p))
                      (filter (\<lambda>p. param.type p = ''files'') (action.params actionMetadata))))
         else Inr auth)"

text \<open>A trailing slash on a string route of more than one character is removed.\<close>

definition stripTrailingSlash :: "route \<Rightarrow> route" where
  "stripTrailingSlash r =
     (case r of
        RouteString s \<Rightarrow>
          if length s > 1 \<and> last s = CHR ''/'' then RouteString (take (length s - 1) s)
          else RouteString s
      | RouteRegExp e \<Rightarrow> RouteRegExp e)"

text \<open>
  The router keeps one layer per registration: the method, the path and the stack of
  middleware functions, in the order of the calls.
\<close>

record 'z layer =
  verb :: string
  path :: route
  stack :: "'z middleware list"

text \<open>
  \<^verbatim>\<open>registerAction(actionMetadata, executeCallback)\<close>. The route handler calls
  \<^verbatim>\<open>executeCallback\<close> with the action object built from \<^verbatim>\<open>context\<close> and \<^verbatim>\<open>next\<close>, so
  \<open>executeCallback\<close> is itself embedded as a middleware function.
\<close>

definition registerAction ::
  "'z driver \<Rightarrow> 'z action \<Rightarrow> 'z middleware \<Rightarrow> 'z layer list \<Rightarrow> js_error + 'z layer list" where
  "registerAction this actionMetadata executeCallback router =
     (case defaultMiddlewares this actionMetadata of
        Inl e \<Rightarrow> Inl e
      | Inr defaults \<Rightarrow>
          let us = controller_uses actionMetadata @ uses actionMetadata;
              beforeMiddlewares = prepareMiddlewares this (filter (\<lambda>u. \<not> afterAction u) us);
              afterMiddlewares = prepareMiddlewares this (filter (\<lambda>u. afterAction u) us);
              r = stripTrailingSlash
                    (appendBaseRoute this (routePrefix this) (fullRoute actionMetadata));
              routeHandler = (\<lambda>context next. executeCallback context next)
          in Inr (router @
                  [\<lparr> verb = toLowerCase (action.type actionMetadata),
                     path = r,
                     stack = [routeGuard] @ beforeMiddlewares @ defaults
                               @ [routeHandler] @ afterMiddlewares \<rparr>]))"

section \<open>Dispatch by the router\<close>

text \<open>
  The router belongs to the host framework and is not part of the repository; the
  source only hands it the stack of an action. The comment on the route guard states
  what the source expects of it: several routes may match one request. Accordingly,
  for a request the router takes the layers that match, in registration order,
  concatenates their stacks and runs the result as one Koa chain: each function
  receives as \<^verbatim>\<open>next\<close> the rest of the chain, and the last one receives the \<^verbatim>\<open>next\<close>
  of the router itself. Which layers match a request is the router's business and a
  parameter here. The host's check that rejects a second call of \<^verbatim>\<open>next\<close> by one
  function is not modelled: a function may run its continuation more than once.
\<close>

fun compose :: "'z middleware list \<Rightarrow> 'z middleware" where
  "compose [] context next = next context"
| "compose (m # ms) context next = m context (\<lambda>c. compose ms c next)"

definition routes :: "'z layer list \<Rightarrow> ('z layer \<Rightarrow> bool) \<Rightarrow> 'z middleware" where
  "routes router matches context next =
     compose (concat (map stack (filter matches router))) context next"

text \<open>Several actions are registered by one call of \<^verbatim>\<open>registerAction\<close> each, in order;
  a registration that throws ends the sequence.\<close>

fun registerActions ::
  "'z driver \<Rightarrow> ('z action \<times> 'z middleware) list \<Rightarrow> 'z layer list
     \<Rightarrow> js_error + 'z layer list" where
  "registerActions this [] router = Inr router"
| "registerActions this ((am, ec) # rest) router =
     (case registerAction this am ec router of
        Inl e \<Rightarrow> Inl e
      | Inr router' \<Rightarrow> registerActions this rest router')"

section \<open>What the dispatch of one request is observed by\<close>

text \<open>
  Two things are observed of a request: the assignment history of
  \<^verbatim>\<open>routingControllersStarted\<close>, and whatever the extension slot of the context record
  holds. The driver never touches the extension slot, so a statement may use it as a
  log: \<open>recording j ec\<close> is the callback \<open>ec\<close> that first appends the number \<open>j\<close> to the
  log, and \<open>recorded j specs\<close> numbers the callbacks of a list of actions from \<open>j\<close> on.
  The log then lists, in order, the routes whose route handler was called.
\<close>

definition dispatch_state :: "'z koa_context_scheme \<Rightarrow> jsval list \<times> 'z" where
  "dispatch_state c = (routingControllersStarted (request c), koa_context.more c)"

definition recording :: "nat \<Rightarrow> (nat list) middleware \<Rightarrow> (nat list) middleware" where
  "recording j ec context next =
     ec (context\<lparr>koa_context.more := koa_context.more context @ [j]\<rparr>) next"

fun recorded ::
  "nat \<Rightarrow> ((nat list) action \<times> (nat list) middleware) list
       \<Rightarrow> ((nat list) action \<times> (nat list) middleware) list" where
  "recorded j [] = []"
| "recorded j ((am, ec) # rest) = (am, recording j ec) # recorded (Suc j) rest"

text \<open>
  Code that the driver calls but does not contain (the user's middleware, the upload
  middleware, the authorization checker, the callback that runs the action) could
  assign the flag itself. \<open>preserves P m\<close> says that the middleware function \<open>m\<close>
  maintains the property \<open>P\<close> of the observed state whenever its continuation does;
  \<open>keeps_dispatch_state m\<close> says so for every property, that is, \<open>m\<close> changes the flag
  and the log only by running its continuation. \<open>externals_keep\<close> collects this for
  everything external that the stack of an action contains.
\<close>

definition preserves :: "(jsval list \<times> 'z \<Rightarrow> bool) \<Rightarrow> 'z middleware \<Rightarrow> bool" where
  "preserves P m \<longleftrightarrow>
     (\<forall>c k. P (dispatch_state c) \<longrightarrow>
            (\<forall>c'. P (dispatch_state c') \<longrightarrow> P (dispatch_state (snd (k c')))) \<longrightarrow>
            P (dispatch_state (snd (m c k))))"

definition keeps_dispatch_state :: "'z middleware \<Rightarrow> bool" where
  "keeps_dispatch_state m \<longleftrightarrow> (\<forall>P. preserves P m)"

fun middleware_function :: "'z middleware_value \<Rightarrow> 'z middleware" where
  "middleware_function (ClassMiddleware u) = u"
| "middleware_function (FunctionMiddleware f) = f"

definition externals_keep :: "'z driver \<Rightarrow> 'z action \<Rightarrow> bool" where
  "externals_keep this am \<longleftrightarrow>
     (\<forall>u \<in> set (controller_uses am @ uses am).
        keeps_dispatch_state (middleware_function (middleware u))) \<and>
     (\<forall>checker c rs. authorizationChecker this = Some checker \<longrightarrow>
        dispatch_state (snd (checker c rs)) = dispatch_state c) \<and>
     (\<forall>n check c. authorizedRoles am = RolesClass n check \<longrightarrow>
        dispatch_state (snd (check c)) = dispatch_state c) \<and>
     (\<forall>m opts mode nm. multer this = Some m \<longrightarrow> keeps_dispatch_state (m opts mode nm))"

text \<open>
  \<open>one_route n\<close>: the flag was assigned once, to \<^verbatim>\<open>true\<close>, and no route but \<open>n\<close> is in
  the log. A layer is \<open>guarded\<close> when its stack starts with the route guard and the
  rest of the stack maintains \<open>one_route n\<close> for some \<open>n\<close>.
\<close>

definition one_route :: "nat \<Rightarrow> jsval list \<times> nat list \<Rightarrow> bool" where
  "one_route n s \<longleftrightarrow> fst s = [JBool True] \<and> set (snd s) \<subseteq> {n}"

definition guarded :: "(nat list) layer \<Rightarrow> bool" where
  "guarded l \<longleftrightarrow>
     (\<exists>n rest. stack l = routeGuard # rest \<and> preserves (one_route n) (compose rest))"

section \<open>Example data\<close>

text \<open>The case labels of the \<^verbatim>\<open>switch\<close> in \<^verbatim>\<open>getParamFromRequest\<close>.\<close>

definition extraction_kinds :: "string list" where
  "extraction_kinds =
     [''body'', ''body-param'', ''param'', ''params'', ''session'', ''session-param'',
      ''state'', ''query'', ''queries'', ''file'', ''files'', ''header'', ''headers'',
      ''cookie'', ''cookies'']"

text \<open>
  A request for \<^verbatim>\<open>GET /users/42\<close> as Koa presents it before any session or upload
  middleware has run: no session object, no uploaded files, no cookie header.
\<close>

definition no_cookies :: "jsval \<Rightarrow> js_error + jsval" where
  "no_cookies h = Inr (JObj [])"

text \<open>Prototypes that give plain objects a \<^verbatim>\<open>constructor\<close> and a \<^verbatim>\<open>toString\<close>.\<close>

fun example_inherited :: prototypes where
  "example_inherited (JObj kvs) k =
     (if k = ''constructor'' then JFunction ''Object''
      else if k = ''toString'' then JFunction ''toString''
      else Undefined)"
| "example_inherited v k = Undefined"

definition example_request :: request where
  "example_request =
     \<lparr> routingControllersStarted = [],
       request.body = JObj [(''title'', JStr ''tea'')],
       request.headers = JObj [(''accept'', JStr ''text/plain'')],
       file = Undefined,
       files = Undefined \<rparr>"

definition example_response :: response where
  "example_response =
     \<lparr> response.body = Undefined, status = JNum 404, explicitStatus = False,
       header_sets = [], redirects = [] \<rparr>"

definition example_context :: koa_context where
  "example_context =
     \<lparr> request = example_request,
       response = example_response,
       koa_context.params = JObj [(''id'', JStr ''42'')],
       session = Undefined,
       state = JObj [],
       query = JObj [],
       koa_context.headers = JObj [(''accept'', JStr ''text/plain'')],
       app_middleware = [] \<rparr>"

definition example_session_context :: koa_context where
  "example_session_context = example_context\<lparr>session := JObj [(''user'', JStr ''ann'')]\<rparr>"

definition example_started_context :: koa_context where
  "example_started_context =
     example_context\<lparr>request := example_request\<lparr>routingControllersStarted := [JBool True]\<rparr>\<rparr>"

definition example_param :: "string \<Rightarrow> string option \<Rightarrow> param" where
  "example_param k n =
     \<lparr> param.type = k, object = Undefined, method = ''getOne'', index = 0,
       parse = JBool False, required = JBool False, classTransform = Undefined,
       validate = JBool False, name = n, extraOptions = Undefined \<rparr>"

text \<open>Continuations: one that leaves a mark on the response, one that only returns.\<close>

definition example_next :: "unit continuation" where
  "example_next context = (Fulfilled, set_body (JStr ''downstream'') context)"

definition example_done :: "'z continuation" where
  "example_done context = (Fulfilled, context)"

text \<open>
  A driver with default error handling, no authorization checker and no upload
  module. Its error classes carry the codes 401, 403, 404 and 500, and a thrown object
  that has an \<^verbatim>\<open>httpCode\<close> counts as an \<^verbatim>\<open>HttpError\<close> with that code; an error renders
  as its class name. The host refuses a header name with a blank in it, and its
  \<^verbatim>\<open>redirect\<close> records the target and sets the status 302.
\<close>

fun example_httpCode :: "js_error \<Rightarrow> jsval" where
  "example_httpCode AuthorizationRequiredError = JNum 401"
| "example_httpCode AccessDeniedError = JNum 403"
| "example_httpCode NotFoundError = JNum 404"
| "example_httpCode AuthorizationCheckerNotDefinedError = JNum 500"
| "example_httpCode (Thrown (JObj kvs)) = lookup kvs ''httpCode''"
| "example_httpCode e = Undefined"

definition example_instanceof_HttpError :: "js_error \<Rightarrow> bool" where
  "example_instanceof_HttpError e = truthy (example_httpCode e)"

fun example_error_name :: "js_error \<Rightarrow> string" where
  "example_error_name AuthorizationRequiredError = ''AuthorizationRequiredError''"
| "example_error_name AccessDeniedError = ''AccessDeniedError''"
| "example_error_name NotFoundError = ''NotFoundError''"
| "example_error_name AuthorizationCheckerNotDefinedError = ''AuthorizationCheckerNotDefinedError''"
| "example_error_name TypeError = ''TypeError''"
| "example_error_name e = ''Error''"

definition example_processJsonError :: "js_error \<Rightarrow> jsval" where
  "example_processJsonError e = JObj [(''name'', JStr (example_error_name e))]"

definition example_processTextError :: "js_error \<Rightarrow> jsval" where
  "example_processTextError e = JStr (example_error_name e)"

definition example_transformResult ::
  "jsval \<Rightarrow> 'z action \<Rightarrow> 'z koa_context_scheme \<Rightarrow> jsval" where
  "example_transformResult result action context = result"

definition example_templateUrl :: "jsval \<Rightarrow> jsval \<Rightarrow> jsval" where
  "example_templateUrl template values = template"

definition example_appendBaseRoute :: "string \<Rightarrow> route \<Rightarrow> route" where
  "example_appendBaseRoute prefix r =
     (case r of RouteString s \<Rightarrow> RouteString (prefix @ s) | RouteRegExp e \<Rightarrow> RouteRegExp e)"

definition example_header_accepted :: "string \<Rightarrow> jsval \<Rightarrow> bool" where
  "example_header_accepted k v \<longleftrightarrow> k \<noteq> [] \<and> CHR '' '' \<notin> set k"

definition example_koa_redirect :: "jsval \<Rightarrow> response \<Rightarrow> js_error + response" where
  "example_koa_redirect url r =
     Inr (r\<lparr>status := JNum 302, explicitStatus := True, redirects := redirects r @ [url]\<rparr>)"

definition example_driver :: "'z driver" where
  "example_driver =
     \<lparr> isDefaultErrorHandlingEnabled = True,
       authorizationChecker = None,
       routePrefix = ''/api'',
       processJsonError = example_processJsonError,
       processTextError = example_processTextError,
       transformResult = example_transformResult,
       instanceof_HttpError = example_instanceof_HttpError,
       httpCode = example_httpCode,
       templateUrl = example_templateUrl,
       appendBaseRoute = example_appendBaseRoute,
       multer = None,
       header_accepted = example_header_accepted,
       koa_redirect = example_koa_redirect \<rparr>"



definition example_silent_driver :: "'z driver" where
  "example_silent_driver = example_driver\<lparr>isDefaultErrorHandlingEnabled := False\<rparr>"

text \<open>The action \<^verbatim>\<open>GET /users/:id/\<close>, with authorization and without, and with a role.\<close>

definition example_action :: "'z action" where
  "example_action =
     \<lparr> action.type = ''GET'',
       fullRoute = RouteString ''/users/:id/'',
       isAuthorizedUsed = True,
       authorizedRoles = Roles [],
       isFileUsed = False,
       isFilesUsed = False,
       action.params = [example_param ''param'' (Some ''id'')],
       controller_uses = [],
       uses = [],
       redirect = Undefined,
       renderedTemplate = Undefined,
       undefinedResultCode = Undefined,
       nullResultCode = Undefined,
       successHttpCode = Undefined,
       action.headers = [(''Cache-Control'', JStr ''no-store'')],
       isJsonTyped = False \<rparr>"

definition example_public_action :: "'z action" where
  "example_public_action = example_action\<lparr>isAuthorizedUsed := False\<rparr>"




text \<open>An error whose \<^verbatim>\<open>httpCode\<close> is no status code.\<close>

definition example_bad_code_error :: js_error where
  "example_bad_code_error = Thrown (JObj [(''httpCode'', JNum 1000)])"

text \<open>A callback whose action returns a string, and a middleware that throws.\<close>

definition example_callback :: "'z middleware" where
  "example_callback context next =
     handleSuccess example_driver (JStr ''hello'') example_public_action context next"





text \<open>
  Two registered routes that both match the example request, and a context with an
  empty log. The first route has a before middleware (a plain function), an after
  middleware (a class), and is authorized by a checker that approves through a
  promise.
\<close>

definition example_tracing_middleware :: "'z middleware" where
  "example_tracing_middleware context next = next (set_body (JStr ''traced'') context)"

definition example_traced_action :: "'z action" where
  "example_traced_action =
     example_action
       \<lparr>uses :=
          [\<lparr> middleware = FunctionMiddleware example_tracing_middleware, afterAction = False \<rparr>,
           \<lparr> middleware = ClassMiddleware example_tracing_middleware, afterAction = True \<rparr>]\<rparr>"

definition example_approving_checker :: "'z authorization_checker" where
  "example_approving_checker context rs = (Resolves (JBool True), context)"

definition example_approving_driver :: "'z driver" where
  "example_approving_driver =
     example_driver\<lparr>authorizationChecker := Some example_approving_checker\<rparr>"

definition example_recording_context :: "(nat list) koa_context_scheme" where
  "example_recording_context =
     \<lparr> request = example_request,
       response = example_response,
       koa_context.params = JObj [(''id'', JStr ''42'')],
       session = Undefined,
       state = JObj [],
       query = JObj [],
       koa_context.headers = JObj [(''accept'', JStr ''text/plain'')],
       app_middleware = [],
       \<dots> = [] \<rparr>"

definition example_specs :: "((nat list) action \<times> (nat list) middleware) list" where
  "example_specs =
     [(example_traced_action, example_callback), (example_action, example_callback)]"

definition example_router :: "(nat list) layer list" where
  "example_router =
     (case registerActions example_approving_driver (recorded 0 example_specs) [] of
        Inl e \<Rightarrow> []
      | Inr router \<Rightarrow> router)"

definition example_matches :: "(nat list) layer \<Rightarrow> bool" where
  "example_matches l = True"

section \<open>Properties\<close>

subsection \<open>The Session decorator\<close>

text \<open>
  C8. Each call of the Session decorator records exactly one descriptor, appended to
  the storage. Its type is \<^verbatim>\<open>'session'\<close> and its \<open>parse\<close> is \<^verbatim>\<open>false\<close> whatever the
  options are. When the options are omitted, \<open>required\<close> is \<^verbatim>\<open>true\<close>, \<open>validate\<close> is
  \<^verbatim>\<open>false\<close> and \<open>classTransform\<close> is \<^verbatim>\<open>undefined\<close>. When the options are an object,
  \<open>required\<close> is its \<^verbatim>\<open>required\<close> property if that is not \<^verbatim>\<open>undefined\<close> and \<^verbatim>\<open>true\<close>
  otherwise, \<open>validate\<close> is its \<^verbatim>\<open>validate\<close> property if that is not \<^verbatim>\<open>undefined\<close> and
  \<^verbatim>\<open>false\<close> otherwise, and \<open>classTransform\<close> is its \<^verbatim>\<open>transform\<close> property. With
  prototypes that define none of the three names, as the built-in ones do, these
  properties are the entries that the options object itself has.
\<close>

theorem Session_records_descriptor:
  "Session inherited options obj m i ps = ps @ [last (Session inherited options obj m i ps)] \<and>
   param.type (last (Session inherited options obj m i ps)) = ''session'' \<and>
   parse (last (Session inherited options obj m i ps)) = JBool False \<and>
   (options = Undefined \<longrightarrow>
      required (last (Session inherited options obj m i ps)) = JBool True \<and>
      validate (last (Session inherited options obj m i ps)) = JBool False \<and>
      classTransform (last (Session inherited options obj m i ps)) = Undefined) \<and>
   (\<forall>kvs. options = JObj kvs \<longrightarrow>
      required (last (Session inherited options obj m i ps)) =
        (if property inherited options ''required'' \<noteq> Undefined
         then property inherited options ''required'' else JBool True) \<and>
      validate (last (Session inherited options obj m i ps)) =
        (if property inherited options ''validate'' \<noteq> Undefined
         then property inherited options ''validate'' else JBool False) \<and>
      classTransform (last (Session inherited options obj m i ps))
        = property inherited options ''transform'') \<and>
   (\<forall>kvs. options = JObj kvs \<longrightarrow>
      inherited options ''required'' = Undefined \<longrightarrow>
      inherited options ''validate'' = Undefined \<longrightarrow>
      inherited options ''transform'' = Undefined \<longrightarrow>
      required (last (Session inherited options obj m i ps)) =
        (if lookup kvs ''required'' \<noteq> Undefined then lookup kvs ''required'' else JBool True) \<and>
      validate (last (Session inherited options obj m i ps)) =
        (if lookup kvs ''validate'' \<noteq> Undefined then lookup kvs ''validate'' else JBool False) \<and>
      classTransform (last (Session inherited options obj m i ps)) = lookup kvs ''transform'')"
  by (auto simp add: Session_def property_def lookup_def split: option.splits)

theorem Session_records_descriptor_witness:
  "required (last (Session example_inherited (JObj [(''required'', JBool False)])
                    JContext ''getOne'' 0 [])) = JBool False \<and>
   validate (last (Session example_inherited (JObj [(''required'', JBool False)])
                    JContext ''getOne'' 0 [])) = JBool False \<and>
   classTransform (last (Session example_inherited (JObj [(''required'', JBool False)])
                          JContext ''getOne'' 0 [])) = Undefined \<and>
   required (last (Session example_inherited Undefined JContext ''getOne'' 0 [])) = JBool True"
  using Session_records_descriptor
          [of example_inherited "JObj [(''required'', JBool False)]" JContext "''getOne''" 0 "[]"]
    Session_records_descriptor [of example_inherited Undefined JContext "''getOne''" 0 "[]"]
  by (simp add: lookup_def property_def)

subsection \<open>Parameter extraction\<close>

text \<open>
  C2, as stated, fails: for a \<^verbatim>\<open>session-param\<close> descriptor on a request that has no
  session object (no session middleware ran), \<^verbatim>\<open>context.session[param.name]\<close> reads a
  property of \<^verbatim>\<open>undefined\<close> and throws a \<^verbatim>\<open>TypeError\<close>.
\<close>

theorem getParamFromRequest_absent_session_throws:
  "getParamFromRequest no_cookies example_inherited example_context
     (example_param ''session-param'' (Some ''user'')) = Inl TypeError"
  by (simp add: getParamFromRequest_def example_param_def example_context_def get_property_def)

text \<open>
  C2, amended. For each of the fifteen kinds \<^verbatim>\<open>getParamFromRequest\<close> reads the kind's
  source. The kinds that hand over a whole value (\<^verbatim>\<open>body\<close>, \<^verbatim>\<open>params\<close>, \<^verbatim>\<open>session\<close>,
  \<^verbatim>\<open>state\<close> without a name, \<^verbatim>\<open>queries\<close>, \<^verbatim>\<open>file\<close>, \<^verbatim>\<open>files\<close>, \<^verbatim>\<open>headers\<close>) return it as
  it is, \<^verbatim>\<open>undefined\<close> included, and never throw. The kinds that read a named entry
  (\<^verbatim>\<open>body-param\<close>, \<^verbatim>\<open>param\<close>, \<^verbatim>\<open>session-param\<close>, \<^verbatim>\<open>state\<close> with a name, \<^verbatim>\<open>query\<close>, and
  \<^verbatim>\<open>header\<close> with its name in lower case) throw a \<^verbatim>\<open>TypeError\<close> when the value they
  read from is \<^verbatim>\<open>undefined\<close> or \<^verbatim>\<open>null\<close>, and otherwise return the property of that
  name: the value's own entry if it has one, and else what its prototype chain has,
  which is \<^verbatim>\<open>undefined\<close> for a name that no prototype defines. A \<^verbatim>\<open>header\<close> descriptor
  without a name throws a \<^verbatim>\<open>TypeError\<close>. \<^verbatim>\<open>cookie\<close> and \<^verbatim>\<open>cookies\<close> throw a
  \<^verbatim>\<open>TypeError\<close> when the headers are absent; with a falsy cookie header they return
  \<^verbatim>\<open>undefined\<close> and the empty object; otherwise the header goes to the cookie parser,
  whose failure is passed on, and \<^verbatim>\<open>cookies\<close> returns its result, \<^verbatim>\<open>cookie\<close> the
  property of the descriptor's name of its result.
\<close>

theorem getParamFromRequest_sources:
  "(param.type p = ''body'' \<longrightarrow>
      getParamFromRequest cp inherited c p = Inr (request.body (request c))) \<and>
   (param.type p = ''body-param'' \<longrightarrow>
      getParamFromRequest cp inherited c p =
        (if nullish (request.body (request c)) then Inl TypeError
         else Inr (property inherited (request.body (request c)) (property_key (name p))))) \<and>
   (param.type p = ''param'' \<longrightarrow>
      getParamFromRequest cp inherited c p =
        (if nullish (koa_context.params c) then Inl TypeError
         else Inr (property inherited (koa_context.params c) (property_key (name p))))) \<and>
   (param.type p = ''params'' \<longrightarrow>
      getParamFromRequest cp inherited c p = Inr (koa_context.params c)) \<and>
   (param.type p = ''session'' \<longrightarrow> getParamFromRequest cp inherited c p = Inr (session c)) \<and>
   (param.type p = ''session-param'' \<longrightarrow>
      getParamFromRequest cp inherited c p =
        (if nullish (session c) then Inl TypeError
         else Inr (property inherited (session c) (property_key (name p))))) \<and>
   (param.type p = ''state'' \<longrightarrow>
      (name p = None \<or> name p = Some [] \<longrightarrow>
         getParamFromRequest cp inherited c p = Inr (state c)) \<and>
      (\<forall>n. name p = Some n \<longrightarrow> n \<noteq> [] \<longrightarrow>
         getParamFromRequest cp inherited c p =
           (if nullish (state c) then Inl TypeError
            else Inr (property inherited (state c) n)))) \<and>
   (param.type p = ''query'' \<longrightarrow>
      getParamFromRequest cp inherited c p =
        (if nullish (query c) then Inl TypeError
         else Inr (property inherited (query c) (property_key (name p))))) \<and>
   (param.type p = ''queries'' \<longrightarrow> getParamFromRequest cp inherited c p = Inr (query c)) \<and>
   (param.type p = ''file'' \<longrightarrow> getParamFromRequest cp inherited c p = Inr (file (request c))) \<and>
   (param.type p = ''files'' \<longrightarrow>
      getParamFromRequest cp inherited c p = Inr (files (request c))) \<and>
   (param.type p = ''header'' \<longrightarrow>
      (name p = None \<longrightarrow> getParamFromRequest cp inherited c p = Inl TypeError) \<and>
      (\<forall>n. name p = Some n \<longrightarrow>
         getParamFromRequest cp inherited c p =
           (if nullish (koa_context.headers c) then Inl TypeError
            else Inr (property inherited (koa_context.headers c) (toLowerCase n))))) \<and>
   (param.type p = ''headers'' \<longrightarrow>
      getParamFromRequest cp inherited c p = Inr (request.headers (request c))) \<and>
   (param.type p = ''cookie'' \<longrightarrow>
      getParamFromRequest cp inherited c p =
        (if nullish (koa_context.headers c) then Inl TypeError
         else if \<not> truthy (property inherited (koa_context.headers c) ''cookie'')
         then Inr Undefined
         else case cp (property inherited (koa_context.headers c) ''cookie'') of
                Inl e \<Rightarrow> Inl e
              | Inr cookies \<Rightarrow>
                  if nullish cookies then Inl TypeError
                  else Inr (property inherited cookies (property_key (name p))))) \<and>
   (param.type p = ''cookies'' \<longrightarrow>
      getParamFromRequest cp inherited c p =
        (if nullish (request.headers (request c)) then Inl TypeError
         else if \<not> truthy (property inherited (request.headers (request c)) ''cookie'')
         then Inr (JObj [])
         else cp (property inherited (request.headers (request c)) ''cookie''))) \<and>
   (\<forall>kvs k v. map_of kvs k = Some v \<longrightarrow> property inherited (JObj kvs) k = v) \<and>
   (\<forall>kvs k. map_of kvs k = None \<longrightarrow> property inherited (JObj kvs) k = inherited (JObj kvs) k)"
  by (auto simp add: getParamFromRequest_def get_property_def property_key_def property_def
        Let_def split: sum.splits)

theorem getParamFromRequest_sources_witness:
  "getParamFromRequest no_cookies example_inherited example_session_context
     (example_param ''session-param'' (Some ''user'')) = Inr (JStr ''ann'') \<and>
   getParamFromRequest no_cookies example_inherited example_session_context
     (example_param ''session-param'' (Some ''cart'')) = Inr Undefined \<and>
   getParamFromRequest no_cookies example_inherited example_session_context
     (example_param ''session-param'' (Some ''constructor'')) = Inr (JFunction ''Object'') \<and>
   getParamFromRequest no_cookies example_inherited example_context
     (example_param ''session'' None) = Inr Undefined \<and>
   getParamFromRequest no_cookies example_inherited example_context
     (example_param ''query'' (Some ''page'')) = Inr Undefined \<and>
   getParamFromRequest no_cookies example_inherited example_context
     (example_param ''header'' None) = Inl TypeError \<and>
   getParamFromRequest no_cookies example_inherited example_context
     (example_param ''cookie'' (Some ''sid'')) = Inr Undefined \<and>
   getParamFromRequest no_cookies example_inherited example_context
     (example_param ''cookies'' None) = Inr (JObj [])"
  using getParamFromRequest_sources [of "example_param ''session-param'' (Some ''user'')"
          no_cookies example_inherited example_session_context]
    getParamFromRequest_sources [of "example_param ''session-param'' (Some ''cart'')"
          no_cookies example_inherited example_session_context]
    getParamFromRequest_sources [of "example_param ''session-param'' (Some ''constructor'')"
          no_cookies example_inherited example_session_context]
    getParamFromRequest_sources [of "example_param ''session'' None"
          no_cookies example_inherited example_context]
    getParamFromRequest_sources [of "example_param ''query'' (Some ''page'')"
          no_cookies example_inherited example_context]
    getParamFromRequest_sources [of "example_param ''header'' None"
          no_cookies example_inherited example_context]
    getParamFromRequest_sources [of "example_param ''cookie'' (Some ''sid'')"
          no_cookies example_inherited example_context]
    getParamFromRequest_sources [of "example_param ''cookies'' None"
          no_cookies example_inherited example_context]
  by (simp add: example_session_context_def example_context_def example_request_def
        example_param_def property_key_def property_def)

text \<open>
  C7, as stated, fails: a descriptor whose kind is none of the case labels does not
  make \<^verbatim>\<open>getParamFromRequest\<close> fail. The \<^verbatim>\<open>switch\<close> has no \<^verbatim>\<open>default\<close> branch, so the
  function returns \<^verbatim>\<open>undefined\<close>.
\<close>

theorem getParamFromRequest_unknown_kind_returns:
  "param.type (example_param ''current-user'' None) \<notin> set extraction_kinds \<and>
   getParamFromRequest no_cookies example_inherited example_context
     (example_param ''current-user'' None) = Inr Undefined"
  by (simp add: getParamFromRequest_def example_param_def extraction_kinds_def)

text \<open>
  C7, amended. For every descriptor whose kind is not one of the fifteen case labels,
  \<^verbatim>\<open>getParamFromRequest\<close> raises nothing and returns \<^verbatim>\<open>undefined\<close>, whatever the
  request is.
\<close>

theorem getParamFromRequest_unknown_kind:
  "param.type p \<notin> set extraction_kinds \<Longrightarrow>
     getParamFromRequest cp inherited c p = Inr Undefined"
  by (simp add: getParamFromRequest_def extraction_kinds_def)

theorem getParamFromRequest_unknown_kind_witness:
  "getParamFromRequest no_cookies example_inherited example_session_context
     (example_param ''request'' None) = Inr Undefined"
  using getParamFromRequest_unknown_kind
          [of "example_param ''request'' None" no_cookies example_inherited
              example_session_context]
  by (simp add: example_param_def extraction_kinds_def)

subsection \<open>The error path\<close>

lemma setHeaders_accepted:
  "(\<forall>k \<in> set ks. header_accepted this k (lookup hs k)) \<Longrightarrow>
   setHeaders this hs ks c =
     (Fulfilled, c\<lparr>response := (response c)\<lparr>header_sets := header_sets (response c)
         @ map (\<lambda>k. (k, lookup hs k)) ks\<rparr>\<rparr>)"
  by (induction ks arbitrary: c) (simp_all add: response_set_def)

lemma setHeaders_refused:
  "\<not> (\<forall>k \<in> set ks. header_accepted this k (lookup hs k)) \<Longrightarrow>
   fst (setHeaders this hs ks c) = Failed TypeError"
  by (induction ks arbitrary: c) (auto simp add: response_set_def)

lemma setHeaders_frame:
  "\<exists>sets. snd (setHeaders this hs ks c) =
     c\<lparr>response := (response c)\<lparr>header_sets := header_sets (response c) @ sets\<rparr>\<rparr>"
proof (induction ks arbitrary: c)
  case Nil
  show ?case by (auto intro: exI [of _ "[]"])
next
  case (Cons k ks)
  show ?case
  proof (cases "header_accepted this k (lookup hs k)")
    case False
    then show ?thesis by (auto simp add: response_set_def intro: exI [of _ "[]"])
  next
    case True
    let ?c = "c\<lparr>response := (response c)\<lparr>header_sets := header_sets (response c) @ [(k, lookup hs k)]\<rparr>\<rparr>"
    from Cons [of ?c] obtain sets where
      "snd (setHeaders this hs ks ?c) =
         ?c\<lparr>response := (response ?c)\<lparr>header_sets := header_sets (response ?c) @ sets\<rparr>\<rparr>"
      by blast
    with True show ?thesis
      by (auto simp add: response_set_def intro: exI [of _ "(k, lookup hs k) # sets"])
  qed
qed

lemma applyHeaders_accepted:
  "(\<forall>k \<in> set (Object_keys (action.headers a)). header_accepted this k (lookup (action.headers a) k)) \<Longrightarrow>
   applyHeaders this a c =
     (Fulfilled, c\<lparr>response := (response c)\<lparr>header_sets := header_sets (response c)
         @ map (\<lambda>k. (k, lookup (action.headers a) k)) (Object_keys (action.headers a))\<rparr>\<rparr>)"
  by (simp add: applyHeaders_def setHeaders_accepted)

text \<open>
  C4, as stated, fails: with default error handling enabled, an \<^verbatim>\<open>HttpError\<close> whose
  \<^verbatim>\<open>httpCode\<close> is 1000 has the action's headers and the error body written, and then
  the assignment of the status throws inside the promise's executor, so the promise
  rejects: a response was written and an error propagates upward.
\<close>

theorem handleError_writes_and_rejects:
  "isDefaultErrorHandlingEnabled (example_driver :: unit driver) \<and>
   handleError example_driver example_bad_code_error (Some example_action) example_context =
     (Failed AssertionError,
      example_context\<lparr>response :=
        example_response\<lparr>response.body := JStr ''Error'', status := JNum 200,
          explicitStatus := True,
          header_sets := [(''Cache-Control'', JStr ''no-store'')]\<rparr>\<rparr>)"
  by (simp add: handleError_def applyHeaders_def example_driver_def example_action_def
      example_header_accepted_def response_set_def Object_keys_def lookup_def set_body_def
      body_setter_def set_status_def status_setter_def example_bad_code_error_def
      example_instanceof_HttpError_def example_processTextError_def example_context_def
      example_response_def empty_status_def)

text \<open>
  C4, amended. With default error handling disabled \<^verbatim>\<open>handleError\<close> rejects with the
  very error and writes nothing. With it enabled the action's headers are set first,
  if an action is given. If the host accepts them all and the status to assign (the
  error's \<^verbatim>\<open>httpCode\<close> if the error is an \<^verbatim>\<open>HttpError\<close> with a truthy code, else 500)
  is an integer from 100 to 999, the promise resolves and one error response has been
  written: the headers, the body (the JSON rendering of the error if the action is
  JSON-typed, the text rendering otherwise; cleared by the host if the status is 204,
  205 or 304) and that status; nothing else of the context changes. If the host
  accepts the headers but the status is not such an integer, the promise rejects with
  the host's assertion error after the headers and the body were written. If the host
  refuses a header, the promise rejects with a \<^verbatim>\<open>TypeError\<close> and neither body nor
  status was written.
\<close>

theorem handleError_outcome:
  "(\<not> isDefaultErrorHandlingEnabled this \<longrightarrow>
      handleError this error action c = (Failed error, c)) \<and>
   (isDefaultErrorHandlingEnabled this \<longrightarrow>
      (let code = (if instanceof_HttpError this error \<and> truthy (httpCode this error)
                   then httpCode this error else JNum 500);
           b = (if (case action of None \<Rightarrow> False | Some a \<Rightarrow> isJsonTyped a)
                then processJsonError this error else processTextError this error);
           hs = (case action of
                   None \<Rightarrow> []
                 | Some a \<Rightarrow> map (\<lambda>k. (k, lookup (action.headers a) k))
                              (Object_keys (action.headers a)));
           r1 = (response c)\<lparr>header_sets := header_sets (response c) @ hs\<rparr>
       in ((\<forall>(k, v) \<in> set hs. header_accepted this k v) \<and> valid_status code \<longrightarrow>
             handleError this error action c =
               (Fulfilled,
                c\<lparr>response :=
                    r1\<lparr>response.body := (if truthy b \<and> empty_status code then Null else b),
                       status := code, explicitStatus := True\<rparr>\<rparr>)) \<and>
          ((\<forall>(k, v) \<in> set hs. header_accepted this k v) \<and> \<not> valid_status code \<longrightarrow>
             handleError this error action c =
               (Failed AssertionError, c\<lparr>response := body_setter b r1\<rparr>)) \<and>
          (\<not> (\<forall>(k, v) \<in> set hs. header_accepted this k v) \<longrightarrow>
             fst (handleError this error action c) = Failed TypeError \<and>
             response.body (response (snd (handleError this error action c)))
               = response.body (response c) \<and>
             status (response (snd (handleError this error action c)))
               = status (response c))))"
proof (cases action)
  case None
  show ?thesis
    unfolding None
    by (auto simp add: handleError_def Let_def set_body_def set_status_def status_setter_def
        body_setter_def)
next
  case (Some a)
  let ?ks = "Object_keys (action.headers a)"
  let ?acc = "\<forall>k \<in> set ?ks. header_accepted this k (lookup (action.headers a) k)"
  have acc: "(\<forall>(k, v) \<in> set (map (\<lambda>k. (k, lookup (action.headers a) k)) ?ks).
                header_accepted this k v) = ?acc"
    by auto
  show ?thesis
  proof (cases ?acc)
    case True
    then show ?thesis
      unfolding Some
      by (auto simp add: handleError_def Let_def applyHeaders_accepted acc set_body_def
          set_status_def status_setter_def body_setter_def)
  next
    case False
    then have f: "fst (applyHeaders this a c) = Failed TypeError"
      by (simp add: applyHeaders_def setHeaders_refused)
    obtain sets where s: "snd (applyHeaders this a c) =
        c\<lparr>response := (response c)\<lparr>header_sets := header_sets (response c) @ sets\<rparr>\<rparr>"
      using setHeaders_frame [of this "action.headers a" ?ks c] by (auto simp add: applyHeaders_def)
    obtain r c1 where e: "applyHeaders this a c = (r, c1)"
      by (cases "applyHeaders this a c")
    with f s have "r = Failed TypeError"
      and "c1 = c\<lparr>response := (response c)\<lparr>header_sets := header_sets (response c) @ sets\<rparr>\<rparr>"
      by simp_all
    with False e show ?thesis
      unfolding Some
      by (simp add: handleError_def Let_def acc)
  qed
qed

theorem handleError_outcome_witness:
  "handleError example_driver NotFoundError (Some example_action) example_context =
     (Fulfilled, example_context\<lparr>response :=
        example_response\<lparr>response.body := JStr ''NotFoundError'', status := JNum 404,
          explicitStatus := True,
          header_sets := [(''Cache-Control'', JStr ''no-store'')]\<rparr>\<rparr>) \<and>
   handleError example_silent_driver NotFoundError (Some example_action) example_context =
     (Failed NotFoundError, example_context)"
  using handleError_outcome [of example_driver NotFoundError "Some example_action" example_context]
    handleError_outcome
      [of example_silent_driver NotFoundError "Some example_action" example_context]
  by (simp add: example_driver_def example_silent_driver_def example_action_def
      example_processTextError_def example_instanceof_HttpError_def
      example_header_accepted_def empty_status_def
      example_context_def example_response_def Object_keys_def lookup_def Let_def)

subsection \<open>The success path\<close>

text \<open>
  C5. Take an action with no redirect and no template, and a result transformation
  (which is outside the file) that leaves \<^verbatim>\<open>undefined\<close> and \<^verbatim>\<open>null\<close> as they are.
  If the action returns \<^verbatim>\<open>undefined\<close> and no undefined-result code is configured,
  \<^verbatim>\<open>handleSuccess\<close> throws a \<^verbatim>\<open>NotFoundError\<close>, touching nothing and not calling
  \<^verbatim>\<open>next\<close>. If it returns \<^verbatim>\<open>null\<close> and neither a null-result code nor a success code
  is configured, the body is set to \<^verbatim>\<open>null\<close> and the status to 204 in every case; the
  action's headers are then set, and \<^verbatim>\<open>next\<close> is called on the result when the host
  accepts them all, as it does for every well-formed header. If it refuses one, the
  call ends with the host's \<^verbatim>\<open>TypeError\<close>, the body being \<^verbatim>\<open>null\<close> and the status 204
  all the same.
\<close>

theorem handleSuccess_undefined_and_null:
  assumes "\<not> truthy (redirect action)" and "\<not> truthy (renderedTemplate action)"
  shows
   "(transformResult this Undefined action c = Undefined \<longrightarrow>
       \<not> truthy (undefinedResultCode action) \<longrightarrow>
       handleSuccess this Undefined action c next = (Failed NotFoundError, c)) \<and>
    (transformResult this Null action c = Null \<longrightarrow>
       \<not> truthy (nullResultCode action) \<longrightarrow> \<not> truthy (successHttpCode action) \<longrightarrow>
       handleSuccess this Null action c next =
         (case applyHeaders this action
                 (c\<lparr>response := (response c)
                      \<lparr>response.body := Null, status := JNum 204, explicitStatus := True\<rparr>\<rparr>) of
            (Failed e, c3) \<Rightarrow> (Failed e, c3)
          | (Fulfilled, c3) \<Rightarrow> next c3) \<and>
       ((\<forall>k \<in> set (Object_keys (action.headers action)).
            header_accepted this k (lookup (action.headers action) k)) \<longrightarrow>
        handleSuccess this Null action c next =
          next (c\<lparr>response := (response c)
                  \<lparr>response.body := Null, status := JNum 204, explicitStatus := True,
                   header_sets := header_sets (response c) @
                     map (\<lambda>k. (k, lookup (action.headers action) k))
                       (Object_keys (action.headers action))\<rparr>\<rparr>)) \<and>
       (\<exists>sets.
          handleSuccess this Null action c next =
            (if \<forall>k \<in> set (Object_keys (action.headers action)).
                  header_accepted this k (lookup (action.headers action) k)
             then next (c\<lparr>response := (response c)
                          \<lparr>response.body := Null, status := JNum 204, explicitStatus := True,
                           header_sets := header_sets (response c) @ sets\<rparr>\<rparr>)
             else (Failed TypeError,
                   c\<lparr>response := (response c)
                      \<lparr>response.body := Null, status := JNum 204, explicitStatus := True,
                       header_sets := header_sets (response c) @ sets\<rparr>\<rparr>))))"
proof -
  have nf: "\<not> truthy v \<Longrightarrow> \<not> instanceof_Function v" for v
    by (cases v) simp_all
  have st: "setHttpStatusCode Null action (set_body Null c) =
              Inr (c\<lparr>response := (response c)
                     \<lparr>response.body := Null, status := JNum 204, explicitStatus := True\<rparr>\<rparr>)"
    if "\<not> truthy (nullResultCode action)" "\<not> truthy (successHttpCode action)"
    using that
    by (simp add: setHttpStatusCode_def set_body_def body_setter_def set_status_def
        status_setter_def Let_def)
  let ?c = "c\<lparr>response := (response c)
               \<lparr>response.body := Null, status := JNum 204, explicitStatus := True\<rparr>\<rparr>"
  let ?acc = "\<forall>k \<in> set (Object_keys (action.headers action)).
                header_accepted this k (lookup (action.headers action) k)"
  have hs: "handleSuccess this Null action c next =
              (case applyHeaders this action ?c of
                 (Failed e, c3) \<Rightarrow> (Failed e, c3)
               | (Fulfilled, c3) \<Rightarrow> next c3)"
    if "transformResult this Null action c = Null" "\<not> truthy (nullResultCode action)"
      "\<not> truthy (successHttpCode action)"
    using assms that
    by (simp add: handleSuccess_def writeResult_def nf st)
  have ex: "\<exists>sets.
          (case applyHeaders this action ?c of
             (Failed e, c3) \<Rightarrow> (Failed e, c3)
           | (Fulfilled, c3) \<Rightarrow> next c3) =
            (if ?acc
             then next (c\<lparr>response := (response c)
                          \<lparr>response.body := Null, status := JNum 204, explicitStatus := True,
                           header_sets := header_sets (response c) @ sets\<rparr>\<rparr>)
             else (Failed TypeError,
                   c\<lparr>response := (response c)
                      \<lparr>response.body := Null, status := JNum 204, explicitStatus := True,
                       header_sets := header_sets (response c) @ sets\<rparr>\<rparr>))"
  proof (cases ?acc)
    case True
    then show ?thesis
      by (auto simp add: applyHeaders_accepted
          intro!: exI [of _ "map (\<lambda>k. (k, lookup (action.headers action) k))
                              (Object_keys (action.headers action))"])
  next
    case False
    then have f: "fst (applyHeaders this action ?c) = Failed TypeError"
      by (simp add: applyHeaders_def setHeaders_refused)
    obtain sets where s: "snd (applyHeaders this action ?c) =
        ?c\<lparr>response := (response ?c)\<lparr>header_sets := header_sets (response ?c) @ sets\<rparr>\<rparr>"
      using setHeaders_frame
              [of this "action.headers action" "Object_keys (action.headers action)" ?c]
      by (auto simp add: applyHeaders_def)
    obtain r c1 where e: "applyHeaders this action ?c = (r, c1)"
      by (cases "applyHeaders this action ?c")
    with f s have "r = Failed TypeError"
      and "c1 = ?c\<lparr>response := (response ?c)
                      \<lparr>header_sets := header_sets (response ?c) @ sets\<rparr>\<rparr>"
      by simp_all
    with False e show ?thesis
      by (auto intro!: exI [of _ sets])
  qed
  have u: "handleSuccess this Undefined action c next = (Failed NotFoundError, c)"
    if "transformResult this Undefined action c = Undefined"
      "\<not> truthy (undefinedResultCode action)"
    using assms that
    by (simp add: handleSuccess_def writeResult_def nf)
  have ac: "?acc \<Longrightarrow>
        (case applyHeaders this action ?c of
           (Failed e, c3) \<Rightarrow> (Failed e, c3)
         | (Fulfilled, c3) \<Rightarrow> next c3) =
          next (c\<lparr>response := (response c)
                  \<lparr>response.body := Null, status := JNum 204, explicitStatus := True,
                   header_sets := header_sets (response c) @
                     map (\<lambda>k. (k, lookup (action.headers action) k))
                       (Object_keys (action.headers action))\<rparr>\<rparr>)"
    by (simp add: applyHeaders_accepted)
  show ?thesis
  proof (intro conjI impI)
    assume "transformResult this Undefined action c = Undefined"
      "\<not> truthy (undefinedResultCode action)"
    then show "handleSuccess this Undefined action c next = (Failed NotFoundError, c)"
      by (rule u)
  next
    assume a: "transformResult this Null action c = Null" "\<not> truthy (nullResultCode action)"
      "\<not> truthy (successHttpCode action)"
    show "handleSuccess this Null action c next =
            (case applyHeaders this action ?c of
               (Failed e, c3) \<Rightarrow> (Failed e, c3)
             | (Fulfilled, c3) \<Rightarrow> next c3)"
      using a by (rule hs)
  next
    assume a: "transformResult this Null action c = Null" "\<not> truthy (nullResultCode action)"
      "\<not> truthy (successHttpCode action)" and acc: ?acc
    show "handleSuccess this Null action c next =
          next (c\<lparr>response := (response c)
                  \<lparr>response.body := Null, status := JNum 204, explicitStatus := True,
                   header_sets := header_sets (response c) @
                     map (\<lambda>k. (k, lookup (action.headers action) k))
                       (Object_keys (action.headers action))\<rparr>\<rparr>)"
      unfolding hs [OF a] using acc by (rule ac)
  next
    assume a: "transformResult this Null action c = Null" "\<not> truthy (nullResultCode action)"
      "\<not> truthy (successHttpCode action)"
    show "\<exists>sets.
          handleSuccess this Null action c next =
            (if ?acc
             then next (c\<lparr>response := (response c)
                          \<lparr>response.body := Null, status := JNum 204, explicitStatus := True,
                           header_sets := header_sets (response c) @ sets\<rparr>\<rparr>)
             else (Failed TypeError,
                   c\<lparr>response := (response c)
                      \<lparr>response.body := Null, status := JNum 204, explicitStatus := True,
                       header_sets := header_sets (response c) @ sets\<rparr>\<rparr>))"
      unfolding hs [OF a] by (rule ex)
  qed
qed

theorem handleSuccess_undefined_and_null_witness:
  "handleSuccess example_driver Undefined example_public_action example_context example_done =
     (Failed NotFoundError, example_context) \<and>
   handleSuccess example_driver Null example_public_action example_context example_done =
     (Fulfilled, example_context\<lparr>response :=
        example_response\<lparr>response.body := Null, status := JNum 204, explicitStatus := True,
          header_sets := [(''Cache-Control'', JStr ''no-store'')]\<rparr>\<rparr>)"
proof -
  have a: "\<not> truthy (redirect (example_public_action :: unit action))"
    "\<not> truthy (renderedTemplate (example_public_action :: unit action))"
    "\<not> truthy (undefinedResultCode (example_public_action :: unit action))"
    "\<not> truthy (nullResultCode (example_public_action :: unit action))"
    "\<not> truthy (successHttpCode (example_public_action :: unit action))"
    by (simp_all add: example_public_action_def example_action_def)
  have t: "transformResult example_driver v example_public_action example_context = v" for v
    by (simp add: example_driver_def example_transformResult_def)
  have h: "\<forall>k \<in> set (Object_keys (action.headers (example_public_action :: unit action))).
             header_accepted (example_driver :: unit driver) k
               (lookup (action.headers (example_public_action :: unit action)) k)"
    by (simp add: example_public_action_def example_action_def Object_keys_def
        example_driver_def example_header_accepted_def)
  note inst = handleSuccess_undefined_and_null
               [OF a(1) a(2), of example_driver example_context example_done]
  have u: "handleSuccess example_driver Undefined example_public_action example_context
             example_done = (Failed NotFoundError, example_context)"
    using inst [THEN conjunct1] t a(3) by blast
  have n: "handleSuccess example_driver Null example_public_action example_context example_done =
          example_done (example_context\<lparr>response := (response example_context)
                  \<lparr>response.body := Null, status := JNum 204, explicitStatus := True,
                   header_sets := header_sets (response example_context) @
                     map (\<lambda>k. (k, lookup (action.headers (example_public_action :: unit action)) k))
                       (Object_keys (action.headers (example_public_action :: unit action)))\<rparr>\<rparr>)"
    using inst [THEN conjunct2, rule_format, THEN conjunct2, THEN conjunct1, rule_format]
      t a(4) a(5) h by blast
  show ?thesis
    unfolding u n
    by (simp add: example_done_def example_public_action_def example_action_def
        example_context_def example_response_def Object_keys_def lookup_def)
qed

subsection \<open>Preparing the user's middleware\<close>

lemma prepareMiddlewares_map:
  "prepareMiddlewares this us =
     map (\<lambda>u. case middleware u of
                ClassMiddleware cls \<Rightarrow> classMiddlewareWrapper this cls
              | FunctionMiddleware f \<Rightarrow> f) us"
proof -
  have "foldl (\<lambda>fs u. case middleware u of
                ClassMiddleware cls \<Rightarrow> fs @ [classMiddlewareWrapper this cls]
              | FunctionMiddleware f \<Rightarrow> fs @ [f]) acc us
        = acc @ map (\<lambda>u. case middleware u of
                ClassMiddleware cls \<Rightarrow> classMiddlewareWrapper this cls
              | FunctionMiddleware f \<Rightarrow> f) us" for acc
    by (induction us arbitrary: acc) (simp_all split: middleware_value.split)
  from this [of "[]"] show ?thesis by (simp add: prepareMiddlewares_def)
qed




subsection \<open>Authorization\<close>



lemma compose_append: "compose (ms @ ns) c k = compose ms c (\<lambda>c'. compose ns c' k)"
  by (induction ms arbitrary: c) simp_all

lemma registerAction_stack:
  assumes "registerAction this am ec router = Inr router'"
  shows "\<exists>defaults. defaultMiddlewares this am = Inr defaults \<and>
     router' = router @
       [\<lparr> verb = toLowerCase (action.type am),
          path = stripTrailingSlash (appendBaseRoute this (routePrefix this) (fullRoute am)),
          stack = routeGuard
            # prepareMiddlewares this
                (filter (\<lambda>u. \<not> afterAction u) (controller_uses am @ uses am))
            @ defaults
            @ ec # prepareMiddlewares this
                (filter afterAction (controller_uses am @ uses am)) \<rparr>]"
  using assms by (auto simp add: registerAction_def Let_def split: sum.splits)

text \<open>
  C6. With no authorization checker configured, the authorization middleware throws
  \<^verbatim>\<open>AuthorizationCheckerNotDefinedError\<close> for every request and every continuation,
  touching nothing. An action that uses authorization is registered with this
  middleware in its stack, after the route guard and the before middleware and ahead
  of the uploads, the route handler and the after middleware. So the whole stack
  behaves as the route guard and the before middleware followed by a step that always
  throws this error: wherever a request gets past the before middleware it fails
  there, and neither the route handler nor anything after it is ever run.
\<close>

theorem authorization_checker_missing:
  assumes "authorizationChecker this = None"
  shows
   "authorizationMiddleware this am c next = (Failed AuthorizationCheckerNotDefinedError, c) \<and>
    (isAuthorizedUsed am \<longrightarrow>
       (\<forall>router'. registerAction this am ec router = Inr router' \<longrightarrow>
          (\<exists>uploads.
             stack (last router') =
               [routeGuard]
               @ prepareMiddlewares this
                   (filter (\<lambda>u. \<not> afterAction u) (controller_uses am @ uses am))
               @ [authorizationMiddleware this am] @ uploads @ [ec]
               @ prepareMiddlewares this (filter afterAction (controller_uses am @ uses am))) \<and>
          (\<forall>c' next'.
             compose (stack (last router')) c' next' =
               compose
                 ([routeGuard]
                  @ prepareMiddlewares this
                      (filter (\<lambda>u. \<not> afterAction u) (controller_uses am @ uses am)))
                 c' (\<lambda>c1. (Failed AuthorizationCheckerNotDefinedError, c1)))))"
proof -
  let ?before = "prepareMiddlewares this
                   (filter (\<lambda>u. \<not> afterAction u) (controller_uses am @ uses am))"
  let ?after = "prepareMiddlewares this (filter afterAction (controller_uses am @ uses am))"
  have a: "authorizationMiddleware this am c k = (Failed AuthorizationCheckerNotDefinedError, c)"
    for c k
    using assms by (simp add: authorizationMiddleware_def)
  have "\<exists>uploads. stack (last router') =
            [routeGuard] @ ?before @ [authorizationMiddleware this am] @ uploads @ [ec] @ ?after"
    and "\<forall>c' next'. compose (stack (last router')) c' next' =
            compose ([routeGuard] @ ?before) c'
              (\<lambda>c1. (Failed AuthorizationCheckerNotDefinedError, c1))"
    if au: "isAuthorizedUsed am" and reg: "registerAction this am ec router = Inr router'"
    for router'
  proof -
    from registerAction_stack [OF reg] obtain defaults
      where d: "defaultMiddlewares this am = Inr defaults"
        and r: "router' = router @
          [\<lparr> verb = toLowerCase (action.type am),
             path = stripTrailingSlash (appendBaseRoute this (routePrefix this) (fullRoute am)),
             stack = routeGuard # ?before @ defaults @ ec # ?after \<rparr>]"
      by blast
    from d au obtain uploads where u: "defaults = authorizationMiddleware this am # uploads"
      by (auto simp add: defaultMiddlewares_def Let_def split: if_splits option.splits)
    have s: "stack (last router') =
               ([routeGuard] @ ?before) @ authorizationMiddleware this am # uploads @ [ec] @ ?after"
      using r u by simp
    then show "\<exists>uploads. stack (last router') =
            [routeGuard] @ ?before @ [authorizationMiddleware this am] @ uploads @ [ec] @ ?after"
      by auto
    show "\<forall>c' next'. compose (stack (last router')) c' next' =
            compose ([routeGuard] @ ?before) c'
              (\<lambda>c1. (Failed AuthorizationCheckerNotDefinedError, c1))"
      unfolding s compose_append by (simp add: a)
  qed
  with a show ?thesis
    by blast
qed

theorem authorization_checker_missing_witness:
  "authorizationMiddleware example_driver example_action example_context example_next =
     (Failed AuthorizationCheckerNotDefinedError, example_context) \<and>
   (case registerAction example_driver example_action example_callback [] of
      Inl e \<Rightarrow> (Fulfilled, example_context)
    | Inr router \<Rightarrow> compose (stack (last router)) example_context example_next) =
     (Failed AuthorizationCheckerNotDefinedError, example_started_context)"
proof -
  note t = authorization_checker_missing
             [of example_driver example_action example_context example_next example_callback "[]"]
  have n: "authorizationChecker (example_driver :: unit driver) = None"
    by (simp add: example_driver_def)
  have a: "isAuthorizedUsed (example_action :: unit action)"
    by (simp add: example_action_def)
  obtain router
    where r: "registerAction example_driver example_action example_callback []
                = Inr (router :: unit layer list)"
    by (simp add: registerAction_def defaultMiddlewares_def Let_def example_action_def
        example_driver_def)
  have u: "controller_uses (example_action :: unit action) @ uses example_action = []"
    by (simp add: example_action_def)
  from t [OF n] a r
  have "compose (stack (last router)) example_context example_next =
          compose
            ([routeGuard]
             @ prepareMiddlewares example_driver
                 (filter (\<lambda>u. \<not> afterAction u)
                    (controller_uses example_action @ uses example_action)))
            example_context (\<lambda>c1. (Failed AuthorizationCheckerNotDefinedError, c1))"
    by blast
  then have "compose (stack (last router)) example_context example_next
      = (Failed AuthorizationCheckerNotDefinedError, example_started_context)"
    unfolding u
    by (simp add: prepareMiddlewares_def routeGuard_def started_def example_context_def
        example_request_def example_started_context_def)
  with t [OF n] r show ?thesis
    by simp
qed

subsection \<open>The route guard\<close>

text \<open>
  C10. When the request's \<^verbatim>\<open>routingControllersStarted\<close> is already truthy, the route
  guard returns without calling \<^verbatim>\<open>next\<close> and leaves the context, with its request
  and response, exactly as it was: the outcome is the same for every continuation.
  Hence the whole stack of a registered action, run on such a request, does nothing:
  no middleware of it runs, the route handler is not called, no response is written.
\<close>

theorem routeGuard_started:
  "truthy (started context) \<Longrightarrow>
     routeGuard context next = (Fulfilled, context) \<and>
     (\<forall>this am ec router router'.
        registerAction this am ec router = Inr router' \<longrightarrow>
        compose (stack (last router')) context next = (Fulfilled, context))"
  by (auto simp add: routeGuard_def dest!: registerAction_stack)

theorem routeGuard_started_witness:
  "routeGuard example_started_context example_next = (Fulfilled, example_started_context) \<and>
   (case registerAction example_driver example_public_action example_callback [] of
      Inl e \<Rightarrow> (Failed e, example_context)
    | Inr router \<Rightarrow> compose (stack (last router)) example_started_context example_next) =
     (Fulfilled, example_started_context)"
proof -
  have s: "truthy (started example_started_context)"
    by (simp add: started_def example_started_context_def)
  obtain router
    where r: "registerAction example_driver example_public_action example_callback []
                = Inr (router :: unit layer list)"
    by (simp add: registerAction_def defaultMiddlewares_def Let_def example_public_action_def
        example_action_def)
  from routeGuard_started [OF s, of example_next] r show ?thesis
    by simp
qed

subsection \<open>One action per request\<close>

lemma preservesD:
  "preserves P m \<Longrightarrow> P (dispatch_state c) \<Longrightarrow>
   (\<And>c'. P (dispatch_state c') \<Longrightarrow> P (dispatch_state (snd (k c')))) \<Longrightarrow>
   P (dispatch_state (snd (m c k)))"
  unfolding preserves_def by simp

lemma preserves_compose:
  "(\<forall>m \<in> set ms. preserves P m) \<Longrightarrow>
   preserves (P :: jsval list \<times> 'z \<Rightarrow> bool) (compose ms)"
proof (induction ms)
  case Nil
  show ?case by (simp add: preserves_def)
next
  case (Cons m ms)
  then have m: "preserves P m" and ih: "preserves P (compose ms)"
    by simp_all
  show ?case
    unfolding preserves_def
  proof (intro allI impI)
    fix c :: "'z koa_context_scheme" and k :: "'z continuation"
    assume pc: "P (dispatch_state c)"
      and pk: "\<forall>c'. P (dispatch_state c') \<longrightarrow> P (dispatch_state (snd (k c')))"
    have "P (dispatch_state (snd (compose ms c' k)))" if "P (dispatch_state c')" for c'
      using ih that by (rule preservesD) (simp add: pk)
    with m pc have "P (dispatch_state (snd (m c (\<lambda>c'. compose ms c' k))))"
      by (rule preservesD)
    then show "P (dispatch_state (snd (compose (m # ms) c k)))"
      by simp
  qed
qed

text \<open>The error path writes the response only.\<close>

lemma applyHeaders_dispatch_state:
  "dispatch_state (snd (applyHeaders this a c)) = dispatch_state c"
proof -
  obtain sets where "snd (applyHeaders this a c) =
      c\<lparr>response := (response c)\<lparr>header_sets := header_sets (response c) @ sets\<rparr>\<rparr>"
    using setHeaders_frame [of this "action.headers a" "Object_keys (action.headers a)" c]
    by (auto simp add: applyHeaders_def)
  then show ?thesis
    by (simp add: dispatch_state_def)
qed

lemma set_body_dispatch_state: "dispatch_state (set_body v c) = dispatch_state c"
  by (simp add: set_body_def dispatch_state_def)

lemma set_status_dispatch_state:
  "set_status v c = Inr c' \<Longrightarrow> dispatch_state c' = dispatch_state c"
  by (auto simp add: set_status_def dispatch_state_def split: sum.splits)

lemma handleError_dispatch_state:
  "dispatch_state (snd (handleError this e a c)) = dispatch_state c"
proof (cases "isDefaultErrorHandlingEnabled this")
  case False
  then show ?thesis
    by (simp add: handleError_def)
next
  case True
  define h where "h = (case a of None \<Rightarrow> (Fulfilled, c) | Some a' \<Rightarrow> applyHeaders this a' c)"
  have hd: "dispatch_state (snd h) = dispatch_state c"
    unfolding h_def by (cases a) (simp_all add: applyHeaders_dispatch_state)
  obtain r c1 where h: "h = (r, c1)"
    by (cases h)
  with hd have c1: "dispatch_state c1 = dispatch_state c"
    by simp
  show ?thesis
  proof (cases r)
    case (Failed e')
    with True h c1 show ?thesis
      by (simp add: handleError_def h_def [symmetric])
  next
    case Fulfilled
    define c2 where "c2 = (if (case a of None \<Rightarrow> False | Some a' \<Rightarrow> isJsonTyped a')
                       then set_body (processJsonError this e) c1
                       else set_body (processTextError this e) c1)"
    have c2: "dispatch_state c2 = dispatch_state c"
      unfolding c2_def using c1 by (simp add: set_body_dispatch_state)
    define s where "s = (if instanceof_HttpError this e \<and> truthy (httpCode this e)
                      then set_status (httpCode this e) c2
                      else set_status (JNum 500) c2)"
    have s: "s = Inr c3 \<Longrightarrow> dispatch_state c3 = dispatch_state c2" for c3
      unfolding s_def by (auto dest: set_status_dispatch_state split: if_splits)
    have "handleError this e a c = (case s of Inl e' \<Rightarrow> (Failed e', c2) | Inr c3 \<Rightarrow> (Fulfilled, c3))"
      unfolding s_def c2_def using True h Fulfilled
      by (simp add: handleError_def h_def [symmetric] Let_def)
    then show ?thesis
      using s c2 by (cases s) simp_all
  qed
qed

lemma preserves_wrapper:
  assumes "preserves (P :: jsval list \<times> 'z \<Rightarrow> bool) u"
  shows "preserves P (classMiddlewareWrapper this u)"
  unfolding preserves_def
proof (intro allI impI)
  fix c :: "'z koa_context_scheme" and k :: "'z continuation"
  assume pc: "P (dispatch_state c)"
    and pk: "\<forall>c'. P (dispatch_state c') \<longrightarrow> P (dispatch_state (snd (k c')))"
  with assms have p: "P (dispatch_state (snd (u c k)))"
    by (auto elim: preservesD)
  obtain r c1 where u: "u c k = (r, c1)"
    by (cases "u c k")
  with p show "P (dispatch_state (snd (classMiddlewareWrapper this u c k)))"
    by (cases r) (simp_all add: classMiddlewareWrapper_def handleError_dispatch_state)
qed

lemma preserves_prepared:
  assumes "\<forall>u \<in> set us. keeps_dispatch_state (middleware_function (middleware u))"
  shows "\<forall>m \<in> set (prepareMiddlewares this us). preserves P m"
proof -
  have "preserves P (case middleware u of
                       ClassMiddleware cls \<Rightarrow> classMiddlewareWrapper this cls
                     | FunctionMiddleware f \<Rightarrow> f)" if "u \<in> set us" for u
  proof (cases "middleware u")
    case (ClassMiddleware cls)
    with assms that have "preserves P cls"
      by (auto simp add: keeps_dispatch_state_def)
    with ClassMiddleware show ?thesis
      by (simp add: preserves_wrapper)
  next
    case (FunctionMiddleware f)
    with assms that have "preserves P f"
      by (auto simp add: keeps_dispatch_state_def)
    with FunctionMiddleware show ?thesis
      by simp
  qed
  then show ?thesis
    by (auto simp add: prepareMiddlewares_map)
qed

lemma preserves_authorization:
  assumes "externals_keep this am"
  shows "preserves (P :: jsval list \<times> 'z \<Rightarrow> bool) (authorizationMiddleware this am)"
  unfolding preserves_def
proof (intro allI impI)
  fix c :: "'z koa_context_scheme" and k :: "'z continuation"
  assume pc: "P (dispatch_state c)"
    and pk: "\<forall>c'. P (dispatch_state c') \<longrightarrow> P (dispatch_state (snd (k c')))"
  show "P (dispatch_state (snd (authorizationMiddleware this am c k)))"
  proof (cases "authorizationChecker this")
    case None
    with pc show ?thesis
      by (simp add: authorizationMiddleware_def)
  next
    case (Some checker)
    define call where
      "call = (case authorizedRoles am of
                 RolesClass n check \<Rightarrow> check c
               | Roles rs \<Rightarrow> checker c rs)"
    obtain r c1 where rc: "call = (r, c1)"
      by (cases call)
    have "dispatch_state (snd call) = dispatch_state c"
      using assms Some unfolding call_def externals_keep_def
      by (cases "authorizedRoles am") auto
    with rc pc have p1: "P (dispatch_state c1)"
      by simp
    with pk have pn: "P (dispatch_state (snd (k c1)))"
      by blast
    have ph: "P (dispatch_state (snd (checkResultHandler this am v c1 k)))" for v
      using p1 pn by (simp add: checkResultHandler_def handleError_dispatch_state)
    have ph2: "P (dispatch_state (snd (case checkResultHandler this am v c1 k of
                  (Failed error, c2) \<Rightarrow> handleError this error (Some am) c2
                | (Fulfilled, c2) \<Rightarrow> (Fulfilled, c2))))" for v
    proof -
      obtain r2 c2 where e: "checkResultHandler this am v c1 k = (r2, c2)"
        by (cases "checkResultHandler this am v c1 k")
      with ph [of v] show ?thesis
        by (cases r2) (simp_all add: handleError_dispatch_state)
    qed
    have "authorizationMiddleware this am c k =
       (case call of
          (Resolves result, c1) \<Rightarrow>
            (case checkResultHandler this am result c1 k of
               (Failed error, c2) \<Rightarrow> handleError this error (Some am) c2
             | (Fulfilled, c2) \<Rightarrow> (Fulfilled, c2))
        | (Rejects error, c1) \<Rightarrow> handleError this error (Some am) c1
        | (Returns result, c1) \<Rightarrow> checkResultHandler this am result c1 k
        | (Throws error, c1) \<Rightarrow> handleError this error (Some am) c1)"
      using Some by (simp add: authorizationMiddleware_def call_def)
    then show ?thesis
      using rc p1 ph ph2 by (cases r) (simp_all add: handleError_dispatch_state)
  qed
qed

lemma preserves_defaults:
  assumes "externals_keep this am" and "defaultMiddlewares this am = Inr dm"
  shows "\<forall>m \<in> set dm. preserves P m"
proof -
  have a: "preserves P (authorizationMiddleware this am)"
    using assms(1) by (rule preserves_authorization)
  have u: "preserves P (m opts mode nm)" if "multer this = Some m" for m opts mode nm
    using assms(1) that by (auto simp add: externals_keep_def keeps_dispatch_state_def)
  show ?thesis
    using assms(2) a u
    by (auto simp add: defaultMiddlewares_def Let_def split: if_splits option.splits)
qed

lemma preserves_recording:
  assumes "keeps_dispatch_state ec" and "\<And>h lg. P (h, lg) \<Longrightarrow> P (h, lg @ [j])"
  shows "preserves P (recording j ec)"
  unfolding preserves_def
proof (intro allI impI)
  fix c :: "(nat list) koa_context_scheme" and k :: "(nat list) continuation"
  assume pc: "P (dispatch_state c)"
    and pk: "\<forall>c'. P (dispatch_state c') \<longrightarrow> P (dispatch_state (snd (k c')))"
  let ?c = "c\<lparr>koa_context.more := koa_context.more c @ [j]\<rparr>"
  have "P (dispatch_state ?c)"
    using pc assms(2) by (simp add: dispatch_state_def)
  moreover have "preserves P ec"
    using assms(1) by (simp add: keeps_dispatch_state_def)
  ultimately have "P (dispatch_state (snd (ec ?c k)))"
    using pk by (auto elim: preservesD)
  then show "P (dispatch_state (snd (recording j ec c k)))"
    by (simp add: recording_def)
qed

text \<open>Every layer that \<^verbatim>\<open>registerAction\<close> adds is guarded.\<close>

lemma registerAction_guarded:
  assumes ext: "externals_keep this am" and ec: "keeps_dispatch_state ec"
    and reg: "registerAction this am (recording j ec) router = Inr router'"
  shows "\<exists>l. router' = router @ [l] \<and> guarded l"
proof -
  let ?before = "prepareMiddlewares this
                   (filter (\<lambda>u. \<not> afterAction u) (controller_uses am @ uses am))"
  let ?after = "prepareMiddlewares this (filter afterAction (controller_uses am @ uses am))"
  from registerAction_stack [OF reg] obtain defaults
    where d: "defaultMiddlewares this am = Inr defaults"
      and r: "router' = router @
        [\<lparr> verb = toLowerCase (action.type am),
           path = stripTrailingSlash (appendBaseRoute this (routePrefix this) (fullRoute am)),
           stack = routeGuard # ?before @ defaults @ recording j ec # ?after \<rparr>]"
    by blast
  have us: "\<forall>u \<in> set (controller_uses am @ uses am).
              keeps_dispatch_state (middleware_function (middleware u))"
    using ext by (simp add: externals_keep_def)
  have b: "\<forall>m \<in> set ?before. preserves (one_route j) m"
    by (rule preserves_prepared) (use us in auto)
  have a: "\<forall>m \<in> set ?after. preserves (one_route j) m"
    by (rule preserves_prepared) (use us in auto)
  have dm: "\<forall>m \<in> set defaults. preserves (one_route j) m"
    using ext d by (rule preserves_defaults)
  have h: "preserves (one_route j) (recording j ec)"
    using ec by (rule preserves_recording) (simp add: one_route_def)
  have "preserves (one_route j) (compose (?before @ defaults @ recording j ec # ?after))"
    by (rule preserves_compose) (use b a dm h in auto)
  then have "guarded
      \<lparr> verb = toLowerCase (action.type am),
        path = stripTrailingSlash (appendBaseRoute this (routePrefix this) (fullRoute am)),
        stack = routeGuard # ?before @ defaults @ recording j ec # ?after \<rparr>"
    unfolding guarded_def by auto
  with r show ?thesis
    by blast
qed

lemma registerActions_guarded:
  assumes "registerActions this (recorded j specs) router = Inr router'"
    and "\<forall>(am, ec) \<in> set specs. externals_keep this am \<and> keeps_dispatch_state ec"
    and "\<forall>l \<in> set router. guarded l"
  shows "\<forall>l \<in> set router'. guarded l"
  using assms
proof (induction specs arbitrary: j router)
  case Nil
  then show ?case
    by simp
next
  case (Cons spec specs)
  obtain am ec where spec: "spec = (am, ec)"
    by (cases spec)
  from Cons.prems(1) spec obtain r1
    where r1: "registerAction this am (recording j ec) router = Inr r1"
      and rest: "registerActions this (recorded (Suc j) specs) r1 = Inr router'"
    by (auto split: sum.splits)
  from Cons.prems(2) spec have "externals_keep this am" "keeps_dispatch_state ec"
    by auto
  from registerAction_guarded [OF this r1] obtain l where "r1 = router @ [l]" "guarded l"
    by blast
  with Cons.prems(3) have "\<forall>l \<in> set r1. guarded l"
    by auto
  moreover from Cons.prems(2)
  have "\<forall>(am, ec) \<in> set specs. externals_keep this am \<and> keeps_dispatch_state ec"
    by simp
  ultimately show ?case
    using Cons.IH [OF rest] by blast
qed

lemma one_route_started: "one_route n (dispatch_state c) \<Longrightarrow> truthy (started c)"
  by (simp add: one_route_def dispatch_state_def started_def)

text \<open>
  The chain of the matching layers, run on a fresh request: the guard of the first
  layer assigns the flag; the rest of its stack keeps \<open>one_route\<close>; the guard of the
  second layer, if the chain gets there, stops it.
\<close>

lemma dispatch_guarded:
  fixes c :: "(nat list) koa_context_scheme"
  assumes g: "\<forall>l \<in> set ls. guarded l"
    and fresh: "routingControllersStarted (request c) = []" "koa_context.more c = []"
    and down: "\<forall>c'. dispatch_state (snd (next c')) = dispatch_state c'"
  shows "routingControllersStarted (request (snd (compose (concat (map stack ls)) c next)))
           = (if ls = [] then [] else [JBool True]) \<and>
         (\<exists>j. set (koa_context.more (snd (compose (concat (map stack ls)) c next))) \<subseteq> {j})"
proof (cases ls)
  case Nil
  have "dispatch_state (snd (next c)) = dispatch_state c"
    using down by blast
  with fresh Nil show ?thesis
    by (simp add: dispatch_state_def)
next
  case (Cons l ls')
  with g obtain n rest where st: "stack l = routeGuard # rest"
    and pr: "preserves (one_route n) (compose rest)"
    by (auto simp add: guarded_def)
  let ?c = "c\<lparr>request := (request c)\<lparr>routingControllersStarted := [JBool True]\<rparr>\<rparr>"
  let ?others = "concat (map stack ls')"
  have run: "compose (concat (map stack ls)) c next
               = compose rest ?c (\<lambda>c'. compose ?others c' next)"
    using Cons st fresh by (simp add: routeGuard_def started_def compose_append)
  have start: "one_route n (dispatch_state ?c)"
    using fresh by (simp add: one_route_def dispatch_state_def)
  have cont: "one_route n (dispatch_state (snd (compose ?others c' next)))"
    if p: "one_route n (dispatch_state c')" for c'
  proof (cases ls')
    case Nil
    have "dispatch_state (snd (next c')) = dispatch_state c'"
      using down by blast
    with p Nil show ?thesis
      by simp
  next
    case (Cons l2 ls2)
    with g \<open>ls = l # ls'\<close> obtain rest2 where "stack l2 = routeGuard # rest2"
      by (auto simp add: guarded_def)
    with Cons have "compose ?others c' next = (Fulfilled, c')"
      using one_route_started [OF p] by (simp add: routeGuard_def)
    with p show ?thesis
      by simp
  qed
  have "one_route n (dispatch_state (snd (compose rest ?c (\<lambda>c'. compose ?others c' next))))"
    using pr start by (rule preservesD) (rule cont)
  with run Cons show ?thesis
    by (auto simp add: one_route_def dispatch_state_def)
qed

text \<open>
  C1. Register any list of actions, each with its callback, and let the callbacks
  log their route number. Suppose the code outside the file that sits in the stacks
  (user middleware, uploads, checker, callbacks) and the router's own continuation
  change the flag and the log only by running their continuation. Then every
  registered stack starts with the route guard, so the flag is checked before any
  other function of the chain runs; and for a fresh request, whatever set of routes
  matches it: if at least one route matches, the flag is assigned exactly once during
  the whole dispatch (a request that no route matches reaches no guard and the flag is
  never assigned); and all entries of the log name one and the same route, that is,
  the route handler of at most one route is called.
\<close>

theorem one_action_per_request:
  fixes c :: "(nat list) koa_context_scheme"
  assumes registered: "registerActions this (recorded 0 specs) [] = Inr router"
    and externals: "\<forall>(am, ec) \<in> set specs. externals_keep this am \<and> keeps_dispatch_state ec"
    and fresh: "routingControllersStarted (request c) = []" "koa_context.more c = []"
    and downstream: "\<forall>c'. dispatch_state (snd (next c')) = dispatch_state c'"
  shows "(\<forall>l \<in> set router. \<exists>rest. stack l = routeGuard # rest) \<and>
         routingControllersStarted (request (snd (routes router matches c next)))
           = (if \<exists>l \<in> set router. matches l then [JBool True] else []) \<and>
         (\<exists>j. set (koa_context.more (snd (routes router matches c next))) \<subseteq> {j})"
proof -
  have g: "\<forall>l \<in> set router. guarded l"
    using registerActions_guarded [OF registered externals] by simp
  then have g': "\<forall>l \<in> set (filter matches router). guarded l"
    by simp
  have e: "(filter matches router = []) = (\<not> (\<exists>l \<in> set router. matches l))"
    by (auto simp add: filter_empty_conv)
  from g have "\<forall>l \<in> set router. \<exists>rest. stack l = routeGuard # rest"
    by (auto simp add: guarded_def)
  moreover note dispatch_guarded [OF g' fresh downstream]
  ultimately show ?thesis
    using e by (simp add: routes_def)
qed

lemma example_callback_eq:
  "example_callback c k =
     k (c\<lparr>response :=
           (body_setter (JStr ''hello'') (response c))
             \<lparr>header_sets := header_sets (response c) @ [(''Cache-Control'', JStr ''no-store'')]\<rparr>\<rparr>)"
  by (simp add: example_callback_def handleSuccess_def example_driver_def
      example_transformResult_def writeResult_def example_public_action_def example_action_def
      setHttpStatusCode_def set_body_def body_setter_def applyHeaders_def Object_keys_def
      lookup_def response_set_def example_header_accepted_def Let_def)

lemma keeps_example_callback: "keeps_dispatch_state example_callback"
  unfolding keeps_dispatch_state_def preserves_def
  by (simp add: example_callback_eq dispatch_state_def)

lemma keeps_example_tracing_middleware: "keeps_dispatch_state example_tracing_middleware"
  unfolding keeps_dispatch_state_def preserves_def
  by (simp add: example_tracing_middleware_def set_body_def dispatch_state_def)

lemma example_externals_keep:
  "externals_keep example_approving_driver example_traced_action"
  "externals_keep example_approving_driver example_action"
  by (auto simp add: externals_keep_def example_approving_driver_def example_driver_def
      example_traced_action_def example_action_def example_approving_checker_def
      keeps_example_tracing_middleware)

lemma example_router_eq:
  "registerActions example_approving_driver (recorded 0 example_specs) [] = Inr example_router"
  "example_router \<noteq> []"
proof -
  have "\<exists>l1 l2. registerActions example_approving_driver (recorded 0 example_specs) []
                  = Inr [l1, l2]"
    by (simp add: example_specs_def registerAction_def defaultMiddlewares_def Let_def
        example_traced_action_def example_action_def)
  then show
    "registerActions example_approving_driver (recorded 0 example_specs) [] = Inr example_router"
    "example_router \<noteq> []"
    by (auto simp add: example_router_def)
qed

lemma example_log:
  "koa_context.more
     (snd (routes example_router example_matches example_recording_context example_done)) = [0]"
  by (simp add: routes_def example_router_def example_specs_def registerAction_def
      defaultMiddlewares_def Let_def example_traced_action_def example_action_def
      example_matches_def prepareMiddlewares_def classMiddlewareWrapper_def
      example_tracing_middleware_def set_body_def routeGuard_def started_def
      example_recording_context_def example_request_def recording_def example_callback_eq
      example_approving_driver_def example_driver_def example_approving_checker_def
      authorizationMiddleware_def checkResultHandler_def example_done_def)

theorem one_action_per_request_witness:
  "routingControllersStarted
     (request (snd (routes example_router example_matches example_recording_context
                      example_done)))
     = [JBool True] \<and>
   (\<exists>j. set (koa_context.more
              (snd (routes example_router example_matches example_recording_context
                      example_done))) \<subseteq> {j}) \<and>
   koa_context.more
     (snd (routes example_router example_matches example_recording_context example_done)) = [0]"
proof -
  have ne: "\<exists>l \<in> set example_router. example_matches l"
    using last_in_set [OF example_router_eq(2)]
    by (intro bexI [of _ "last example_router"]) (simp_all add: example_matches_def)
  have e: "\<forall>(am, ec) \<in> set example_specs.
             externals_keep example_approving_driver am \<and> keeps_dispatch_state ec"
    by (simp add: example_specs_def example_externals_keep keeps_example_callback)
  have f: "routingControllersStarted (request example_recording_context) = []"
    "koa_context.more example_recording_context = []"
    by (simp_all add: example_recording_context_def example_request_def)
  have d: "\<forall>c'. dispatch_state (snd (example_done c')) = dispatch_state c'"
    by (simp add: example_done_def)
  from one_action_per_request [OF example_router_eq(1) e f d, of example_matches] ne example_log
  show ?thesis
    by simp
qed

end
